theory Spec2Isabelle
  imports Main "HOL-Library.Signed_Division"
begin

section \<open>Data model (game.h)\<close>

text \<open>
  The C structures of \<^verbatim>\<open>game.h\<close> become records. C \<^verbatim>\<open>int\<close> values are modelled as
  \<open>int\<close>: every counter of the game is bounded by the difficulty table (at most 60 ships)
  or by the terminal size, so no arithmetic of the program comes near the 32-bit range.
  Array indices found by a scan are \<open>nat\<close>, and the sentinel \<^verbatim>\<open>-1\<close> of the C loops
  (\<^verbatim>\<open>idx == -1\<close>: nothing found) is \<open>None\<close>.

  Field names that are single letters or clash between structures carry the structure's
  name as a prefix (\<open>nave_x\<close> is \<^verbatim>\<open>Nave.x\<close>, \<open>fog_ativa\<close> is \<^verbatim>\<open>Foguete.ativa\<close>).
  Thread handles, mutexes and condition variables hold no game data and are left out of
  the records; what the locks guarantee is modelled by the granularity of the steps:
  every outermost lock/unlock region of the source is one atomic state transformer.
\<close>

definition MAX_NAVES :: nat where "MAX_NAVES = 80"
definition MAX_FOGUETES :: nat where "MAX_FOGUETES = 150"
definition MAX_LANCADORES :: nat where "MAX_LANCADORES = 15"

datatype DirecaoDisparo =
    DIR_VERTICAL
  | DIR_DIAGONAL_ESQ
  | DIR_DIAGONAL_DIR
  | DIR_HORIZONTAL_ESQ
  | DIR_HORIZONTAL_DIR

record Lancador =
  tem_foguete :: bool
  direcao :: DirecaoDisparo

record Nave =
  nave_id :: int
  nave_x :: int
  nave_y :: int
  nave_ativa :: bool
  nave_destruida :: bool

record Foguete =
  fog_id :: int
  fog_x :: int
  fog_y :: int
  fog_dx :: int
  fog_dy :: int
  fog_direcao :: DirecaoDisparo
  fog_lancador_id :: int
  fog_ativa :: bool

record DifficultyConfig =
  cfg_id :: int
  cfg_name :: string
  launchers :: int
  reload_ms :: int
  ships_total :: int
  ship_speed_ms :: int
  spawn_min_ms :: int
  spawn_max_ms :: int

record GameState =
  screen_width :: int
  screen_height :: int
  hud_height :: int
  controls_height :: int
  pontuacao :: int
  naves_total :: int
  naves_destruidas :: int
  naves_chegaram :: int
  naves_spawned :: int
  game_over :: bool
  dificuldade :: int
  cfg :: DifficultyConfig
  start_time :: int
  elapsed_sec :: int
  shots_fired :: int
  shots_hit :: int
  current_streak :: int
  best_streak :: int
  bateria_x :: int
  direcao_atual :: DirecaoDisparo
  lancadores :: "Lancador list"
  num_lancadores :: int
  tempo_recarga :: int
  naves :: "Nave list"
  num_naves_ativas :: int
  foguetes :: "Foguete list"
  num_foguetes_ativos :: int

section \<open>Initialisation (game.c: DIFFS, game\_init)\<close>

definition DEF_W :: int where "DEF_W = 120"
definition DEF_H :: int where "DEF_H = 32"
definition HUD_H :: int where "HUD_H = 3"
definition CTRL_H :: int where "CTRL_H = 2"

definition mk_cfg ::
  "int \<Rightarrow> string \<Rightarrow> int \<Rightarrow> int \<Rightarrow> int \<Rightarrow> int \<Rightarrow> int \<Rightarrow> int \<Rightarrow> DifficultyConfig" where
  "mk_cfg i n l r t sp mn mx =
     \<lparr>cfg_id = i, cfg_name = n, launchers = l, reload_ms = r, ships_total = t,
      ship_speed_ms = sp, spawn_min_ms = mn, spawn_max_ms = mx\<rparr>"

definition DIFFS :: "DifficultyConfig list" where
  "DIFFS =
     [mk_cfg 0 ''Easy'' 4 2500 30 800 2000 3000,
      mk_cfg 1 ''Medium'' 7 1500 40 600 2000 2000,
      mk_cfg 2 ''Hard'' 12 800 60 450 1000 2000]"

text \<open>The all-zero slots that \<^verbatim>\<open>memset(game, 0, sizeof(GameState))\<close> leaves behind.\<close>

definition zero_lancador :: Lancador where
  "zero_lancador = \<lparr>tem_foguete = False, direcao = DIR_VERTICAL\<rparr>"

definition zero_nave :: Nave where
  "zero_nave = \<lparr>nave_id = 0, nave_x = 0, nave_y = 0, nave_ativa = False, nave_destruida = False\<rparr>"

definition zero_foguete :: Foguete where
  "zero_foguete =
     \<lparr>fog_id = 0, fog_x = 0, fog_y = 0, fog_dx = 0, fog_dy = 0, fog_direcao = DIR_VERTICAL,
      fog_lancador_id = 0, fog_ativa = False\<rparr>"

text \<open>
  \<^verbatim>\<open>game_init\<close>; \<open>now\<close> is the value of \<^verbatim>\<open>time(NULL)\<close>. The loop over the launchers
  writes the values the \<^verbatim>\<open>memset\<close> has already put there.
\<close>

definition game_init :: "int \<Rightarrow> int \<Rightarrow> GameState" where
  "game_init now d =
     (let dif = (if d < 0 \<or> 2 < d then 1 else d);
          c = DIFFS ! nat dif
      in \<lparr>screen_width = DEF_W, screen_height = DEF_H, hud_height = HUD_H,
          controls_height = CTRL_H,
          pontuacao = 0, naves_total = ships_total c, naves_destruidas = 0,
          naves_chegaram = 0, naves_spawned = 0, game_over = False,
          dificuldade = dif, cfg = c, start_time = now, elapsed_sec = 0,
          shots_fired = 0, shots_hit = 0, current_streak = 0, best_streak = 0,
          bateria_x = DEF_W sdiv 2, direcao_atual = DIR_VERTICAL,
          lancadores = replicate MAX_LANCADORES zero_lancador,
          num_lancadores = launchers c, tempo_recarga = reload_ms c,
          naves = replicate MAX_NAVES zero_nave, num_naves_ativas = 0,
          foguetes = replicate MAX_FOGUETES zero_foguete, num_foguetes_ativos = 0\<rparr>)"

section \<open>Fire action (game.c: tentar\_disparar)\<close>

text \<open>
  The C scan \<^verbatim>\<open>for (i = 0; i < n; i++) if (P(i)) { idx = i; break; }\<close> is
  \<open>find P [0..<n]\<close>: the first index in range that satisfies \<open>P\<close>, or \<open>None\<close>.
\<close>

definition scan_lancador_carregado :: "GameState \<Rightarrow> nat option" where
  "scan_lancador_carregado g =
     find (\<lambda>i. tem_foguete (lancadores g ! i)) [0..<nat (num_lancadores g)]"

definition scan_foguete_livre :: "GameState \<Rightarrow> nat option" where
  "scan_foguete_livre g = find (\<lambda>i. \<not> fog_ativa (foguetes g ! i)) [0..<MAX_FOGUETES]"

text \<open>
  Lines 140--190: the region under \<^verbatim>\<open>mutex_lancadores\<close> (with \<^verbatim>\<open>mutex_foguetes\<close> and
  \<^verbatim>\<open>mutex_estado\<close> nested inside). Returns the projectile slot that was populated, or
  \<open>None\<close> with the state untouched when one of the two scans finds nothing.
\<close>

definition disparar_secao :: "GameState \<Rightarrow> nat option \<times> GameState" where
  "disparar_secao g =
     (case scan_lancador_carregado g of
        None \<Rightarrow> (None, g)
      | Some lancador_idx \<Rightarrow>
          (case scan_foguete_livre g of
             None \<Rightarrow> (None, g)
           | Some foguete_idx \<Rightarrow>
               (let bx = bateria_x g; dir = direcao_atual g; sw = screen_width g;
                    sh = screen_height g; c = controls_height g;
                    f = (foguetes g ! foguete_idx)
                          \<lparr>fog_id := int foguete_idx,
                           fog_x := (if bx < 0 then 0 else if sw \<le> bx then sw - 1 else bx),
                           fog_y := sh - c - 1,
                           fog_direcao := dir,
                           fog_lancador_id := int lancador_idx,
                           fog_ativa := True\<rparr>;
                    l = (lancadores g ! lancador_idx)\<lparr>tem_foguete := False\<rparr>
                in (Some foguete_idx,
                    g\<lparr>foguetes := (foguetes g)[foguete_idx := f],
                      num_foguetes_ativos := num_foguetes_ativos g + 1,
                      lancadores := (lancadores g)[lancador_idx := l],
                      shots_fired := shots_fired g + 1\<rparr>))))"

text \<open>Lines 198--201: the slot is deactivated again after \<^verbatim>\<open>pthread_create\<close> failed.\<close>

definition disparar_rollback :: "nat \<Rightarrow> GameState \<Rightarrow> GameState" where
  "disparar_rollback foguete_idx g =
     g\<lparr>foguetes := (foguetes g)[foguete_idx := (foguetes g ! foguete_idx)\<lparr>fog_ativa := False\<rparr>],
       num_foguetes_ativos := num_foguetes_ativos g - 1\<rparr>"

text \<open>
  The whole call, run without interference. \<open>malloc_ok\<close> and \<open>create_ok\<close> are the outcomes of
  \<^verbatim>\<open>malloc\<close> and \<^verbatim>\<open>pthread_create\<close>. The result is the returned \<^verbatim>\<open>bool\<close>, the new state,
  and the slot of the projectile task that was started, if one was.
\<close>

definition tentar_disparar :: "bool \<Rightarrow> bool \<Rightarrow> GameState \<Rightarrow> bool \<times> GameState \<times> nat option" where
  "tentar_disparar malloc_ok create_ok g =
     (case disparar_secao g of
        (None, g1) \<Rightarrow> (False, g1, None)
      | (Some foguete_idx, g1) \<Rightarrow>
          if \<not> malloc_ok then (True, g1, None)
          else if create_ok then (True, g1, Some foguete_idx)
          else (False, disparar_rollback foguete_idx g1, None))"

section \<open>Spawning a ship (game.c: criar\_nave)\<close>

definition scan_nave_livre :: "GameState \<Rightarrow> nat option" where
  "scan_nave_livre g = find (\<lambda>i. \<not> nave_ativa (naves g ! i)) [0..<MAX_NAVES]"

text \<open>
  Lines 96--118, under \<^verbatim>\<open>mutex_naves\<close>: capacity check, scan for a free slot, slot
  initialisation. \<open>r\<close> is the value returned by \<^verbatim>\<open>rand()\<close> (never negative).
\<close>

definition criar_nave_slot :: "nat \<Rightarrow> GameState \<Rightarrow> nat option \<times> GameState" where
  "criar_nave_slot r g =
     (if int MAX_NAVES \<le> num_naves_ativas g then (None, g)
      else case scan_nave_livre g of
             None \<Rightarrow> (None, g)
           | Some idx \<Rightarrow>
               (let w = screen_width g; hud = hud_height g;
                    n = (naves g ! idx)
                          \<lparr>nave_id := int idx,
                           nave_x := (if 0 < w then int r mod w else 0),
                           nave_y := hud,
                           nave_ativa := True,
                           nave_destruida := False\<rparr>
                in (Some idx,
                    g\<lparr>naves := (naves g)[idx := n],
                      num_naves_ativas := num_naves_ativas g + 1\<rparr>)))"

text \<open>Lines 120--122.\<close>

definition criar_nave_conta :: "GameState \<Rightarrow> GameState" where
  "criar_nave_conta g = g\<lparr>naves_spawned := naves_spawned g + 1\<rparr>"

text \<open>Lines 130--133: what the source undoes when \<^verbatim>\<open>pthread_create\<close> fails.\<close>

definition criar_nave_rollback :: "nat \<Rightarrow> GameState \<Rightarrow> GameState" where
  "criar_nave_rollback idx g =
     g\<lparr>naves := (naves g)[idx := (naves g ! idx)\<lparr>nave_ativa := False\<rparr>],
       num_naves_ativas := num_naves_ativas g - 1\<rparr>"

text \<open>
  The whole call, run without interference: the new state and the slot of the ship task
  that was started, if one was.
\<close>

definition criar_nave :: "nat \<Rightarrow> bool \<Rightarrow> bool \<Rightarrow> GameState \<Rightarrow> GameState \<times> nat option" where
  "criar_nave r malloc_ok create_ok g =
     (if naves_total g \<le> naves_spawned g then (g, None)
      else case criar_nave_slot r g of
             (None, g1) \<Rightarrow> (g1, None)
           | (Some idx, g1) \<Rightarrow>
               (let g2 = criar_nave_conta g1
                in if \<not> malloc_ok then (g2, None)
                   else if create_ok then (g2, Some idx)
                   else (criar_nave_rollback idx g2, None)))"

section \<open>Input (input.c: process\_input)\<close>

text \<open>Key codes: C character constants, and the ncurses values of the arrow keys and \<^verbatim>\<open>ERR\<close>.\<close>

definition ch :: "char \<Rightarrow> int" where "ch c = of_char c"
definition KEY_UP :: int where "KEY_UP = 259"
definition KEY_LEFT :: int where "KEY_LEFT = 260"
definition KEY_RIGHT :: int where "KEY_RIGHT = 261"
definition ERR :: int where "ERR = - 1"

text \<open>
  The \<^verbatim>\<open>switch\<close> under \<^verbatim>\<open>mutex_estado\<close>. The space key changes nothing here: its case
  releases the lock and calls \<^verbatim>\<open>tentar_disparar\<close>.
\<close>

definition process_input_tecla :: "int \<Rightarrow> GameState \<Rightarrow> GameState" where
  "process_input_tecla key g =
     (let sw = screen_width g
      in if key = ch CHR ''a'' \<or> key = ch CHR ''A'' \<or> key = KEY_LEFT then
           (if 0 < bateria_x g then g\<lparr>bateria_x := bateria_x g - 1\<rparr> else g)
         else if key = ch CHR ''d'' \<or> key = ch CHR ''D'' \<or> key = KEY_RIGHT then
           (if bateria_x g < sw - 1 then g\<lparr>bateria_x := bateria_x g + 1\<rparr> else g)
         else if key = ch CHR ''w'' \<or> key = ch CHR ''W'' \<or> key = KEY_UP then
           g\<lparr>direcao_atual := DIR_VERTICAL\<rparr>
         else if key = ch CHR ''q'' \<or> key = ch CHR ''Q'' then
           g\<lparr>direcao_atual := DIR_DIAGONAL_ESQ\<rparr>
         else if key = ch CHR ''e'' \<or> key = ch CHR ''E'' then
           g\<lparr>direcao_atual := DIR_DIAGONAL_DIR\<rparr>
         else if key = ch CHR ''z'' \<or> key = ch CHR ''Z'' then
           g\<lparr>direcao_atual := DIR_HORIZONTAL_ESQ\<rparr>
         else if key = ch CHR ''c'' \<or> key = ch CHR ''C'' then
           g\<lparr>direcao_atual := DIR_HORIZONTAL_DIR\<rparr>
         else if key = ch CHR '' '' then g
         else if key = ch CHR ''x'' \<or> key = ch CHR ''X'' \<or> key = 27 then
           g\<lparr>game_over := True\<rparr>
         else g)"

definition process_input :: "int \<Rightarrow> bool \<Rightarrow> bool \<Rightarrow> GameState \<Rightarrow> GameState \<times> nat option" where
  "process_input key malloc_ok create_ok g =
     (if key = ch CHR '' '' then snd (tentar_disparar malloc_ok create_ok g)
      else (process_input_tecla key g, None))"

section \<open>Publishing the terminal size (render.c: render\_game, lines 141--158)\<close>

text \<open>
  \<open>sw\<close> and \<open>sh\<close> are the values the renderer copied out in its snapshot (lines 129--136);
  \<open>real_h\<close> and \<open>real_w\<close> are what \<^verbatim>\<open>getmaxyx\<close> measured. Drawing itself and the
  renderer's private explosion ring touch no field of the game state.
\<close>

definition render_resize :: "int \<Rightarrow> int \<Rightarrow> int \<Rightarrow> int \<Rightarrow> GameState \<Rightarrow> GameState" where
  "render_resize sw sh real_h0 real_w0 g =
     (let real_h = (if real_h0 < 8 then 8 else real_h0);
          real_w = (if real_w0 < 40 then 40 else real_w0)
      in if real_w \<noteq> sw \<or> real_h \<noteq> sh then
           (let g1 = g\<lparr>screen_width := real_w, screen_height := real_h\<rparr>
            in if real_w \<le> bateria_x g1 then g1\<lparr>bateria_x := real_w - 1\<rparr> else g1)
         else g)"

definition render_game :: "int \<Rightarrow> int \<Rightarrow> GameState \<Rightarrow> GameState" where
  "render_game real_h real_w g = render_resize (screen_width g) (screen_height g) real_h real_w g"

section \<open>The collision gate and the scoring sections (threads.c)\<close>

text \<open>Lines 106--112 of \<^verbatim>\<open>thread_nave\<close>: the value returned is the local \<^verbatim>\<open>first\<close>.\<close>

definition nave_gate_ground :: "nat \<Rightarrow> GameState \<Rightarrow> bool \<times> GameState" where
  "nave_gate_ground i g =
     (if nave_ativa (naves g ! i)
      then (True, g\<lparr>naves := (naves g)[i := (naves g ! i)\<lparr>nave_ativa := False\<rparr>]\<rparr>)
      else (False, g))"

text \<open>Lines 140--147 of \<^verbatim>\<open>thread_nave\<close>.\<close>

definition nave_gate_kill :: "nat \<Rightarrow> GameState \<Rightarrow> bool \<times> GameState" where
  "nave_gate_kill i g =
     (if nave_ativa (naves g ! i)
      then (True, g\<lparr>naves := (naves g)[i := (naves g ! i)\<lparr>nave_ativa := False,
                                                         nave_destruida := True\<rparr>]\<rparr>)
      else (False, g))"

text \<open>Lines 114--119 of \<^verbatim>\<open>thread_nave\<close>.\<close>

definition score_ground :: "bool \<Rightarrow> GameState \<Rightarrow> GameState" where
  "score_ground first g =
     (if first then g\<lparr>naves_chegaram := naves_chegaram g + 1, current_streak := 0\<rparr> else g)"

text \<open>
  Lines 149--158 of \<^verbatim>\<open>thread_nave\<close> and, with the same text, lines 241--249 of
  \<^verbatim>\<open>thread_foguete\<close>.
\<close>

definition score_kill :: "bool \<Rightarrow> GameState \<Rightarrow> GameState" where
  "score_kill first g =
     (if first then
        (let g1 = g\<lparr>naves_destruidas := naves_destruidas g + 1,
                    pontuacao := pontuacao g + 10,
                    shots_hit := shots_hit g + 1,
                    current_streak := current_streak g + 1\<rparr>
         in if best_streak g1 < current_streak g1
            then g1\<lparr>best_streak := current_streak g1\<rparr> else g1)
      else g)"

text \<open>The forgiving collision box: both axis distances at most 2.\<close>

definition na_caixa :: "int \<Rightarrow> int \<Rightarrow> int \<Rightarrow> int \<Rightarrow> bool" where
  "na_caixa ax ay bx by = (\<bar>ax - bx\<bar> \<le> 2 \<and> \<bar>ay - by\<bar> \<le> 2)"

text \<open>Lines 124--137 of \<^verbatim>\<open>thread_nave\<close>: the ship's scan of the rockets; the result is \<^verbatim>\<open>colidiu\<close>.\<close>

definition nave_scan_foguetes :: "int \<Rightarrow> int \<Rightarrow> GameState \<Rightarrow> bool \<times> GameState" where
  "nave_scan_foguetes nx ny g =
     (case find (\<lambda>j. fog_ativa (foguetes g ! j)
                     \<and> na_caixa (fog_x (foguetes g ! j)) (fog_y (foguetes g ! j)) nx ny)
                [0..<MAX_FOGUETES] of
        None \<Rightarrow> (False, g)
      | Some j \<Rightarrow>
          (True, g\<lparr>foguetes := (foguetes g)[j := (foguetes g ! j)\<lparr>fog_ativa := False\<rparr>]\<rparr>))"

text \<open>
  Lines 208--226 of \<^verbatim>\<open>thread_foguete\<close>: the rocket's scan of the ships. The result is
  \<^verbatim>\<open>hit_ship\<close> (\<open>None\<close> for \<^verbatim>\<open>-1\<close>); \<^verbatim>\<open>hit\<close> and \<^verbatim>\<open>first\<close> are both true exactly when a
  ship was found.
\<close>

definition foguete_scan_naves :: "int \<Rightarrow> int \<Rightarrow> GameState \<Rightarrow> nat option \<times> GameState" where
  "foguete_scan_naves fx fy g =
     (case find (\<lambda>i. nave_ativa (naves g ! i)
                     \<and> na_caixa (nave_x (naves g ! i)) (nave_y (naves g ! i)) fx fy)
                [0..<MAX_NAVES] of
        None \<Rightarrow> (None, g)
      | Some i \<Rightarrow>
          (Some i, g\<lparr>naves := (naves g)[i := (naves g ! i)\<lparr>nave_ativa := False,
                                                            nave_destruida := True\<rparr>]\<rparr>))"

text \<open>The score and statistics counters of the Run State.\<close>

definition placar :: "GameState \<Rightarrow> int \<times> int \<times> int \<times> int \<times> int \<times> int" where
  "placar g =
     (pontuacao g, naves_destruidas g, naves_chegaram g, shots_hit g, current_streak g,
      best_streak g)"

section \<open>The tasks as step functions (threads.c)\<close>

text \<open>
  Each task is a program counter with its live local variables, and a step function,
  named after the task's C function, that runs one atomic piece of it: one read of the
  atomic flag \<^verbatim>\<open>game_over\<close> at a loop head, or one outermost lock/unlock region. Sleeping
  is the return to the loop head.
\<close>

subsection \<open>thread\_nave\<close>

text \<open>
  The task of the ship in slot \<open>i\<close>. \<open>NTop\<close> is the loop head (line 92), \<open>NMove\<close> lines
  93--97, \<open>NMetrics\<close> lines 100--105 with the locals \<^verbatim>\<open>nx\<close> and \<^verbatim>\<open>ny\<close>, \<open>NGroundGate\<close>
  lines 106--112, \<open>NGroundScore\<close> lines 114--120 with the local \<^verbatim>\<open>first\<close>, \<open>NScan\<close> lines
  124--137 (and the sleep of line 162 when nothing was hit), \<open>NKillGate\<close> lines 140--147,
  \<open>NKillScore\<close> lines 149--159, \<open>NExit\<close> lines 165--167.
\<close>

datatype npc =
    NTop
  | NMove
  | NMetrics int int
  | NGroundGate
  | NGroundScore bool
  | NScan int int
  | NKillGate int int
  | NKillScore bool int int
  | NExit
  | NDone

fun thread_nave :: "nat \<Rightarrow> npc \<Rightarrow> GameState \<Rightarrow> npc \<times> GameState" where
  "thread_nave i NTop g = (if game_over g then (NExit, g) else (NMove, g))"
| "thread_nave i NMove g =
     (if \<not> nave_ativa (naves g ! i) then (NExit, g)
      else (let n = (naves g ! i)\<lparr>nave_y := nave_y (naves g ! i) + 1\<rparr>
            in (NMetrics (nave_x n) (nave_y n), g\<lparr>naves := (naves g)[i := n]\<rparr>)))"
| "thread_nave i (NMetrics nx ny) g =
     (let sh = screen_height g; c = controls_height g
      in if sh - c - 1 \<le> ny then (NGroundGate, g) else (NScan nx ny, g))"
| "thread_nave i NGroundGate g =
     (case nave_gate_ground i g of (first, g1) \<Rightarrow> (NGroundScore first, g1))"
| "thread_nave i (NGroundScore first) g = (NExit, score_ground first g)"
| "thread_nave i (NScan nx ny) g =
     (case nave_scan_foguetes nx ny g of
        (colidiu, g1) \<Rightarrow> if colidiu then (NKillGate nx ny, g1) else (NTop, g1))"
| "thread_nave i (NKillGate nx ny) g =
     (case nave_gate_kill i g of (first, g1) \<Rightarrow> (NKillScore first nx ny, g1))"
| "thread_nave i (NKillScore first nx ny) g = (NExit, score_kill first g)"
| "thread_nave i NExit g = (NDone, g\<lparr>num_naves_ativas := num_naves_ativas g - 1\<rparr>)"
| "thread_nave i NDone g = (NDone, g)"

subsection \<open>thread\_foguete\<close>

definition dir_vec :: "DirecaoDisparo \<Rightarrow> int \<times> int" where
  "dir_vec d =
     (case d of
        DIR_VERTICAL \<Rightarrow> (0, - 1)
      | DIR_DIAGONAL_ESQ \<Rightarrow> (- 1, - 1)
      | DIR_DIAGONAL_DIR \<Rightarrow> (1, - 1)
      | DIR_HORIZONTAL_ESQ \<Rightarrow> (- 1, 0)
      | DIR_HORIZONTAL_DIR \<Rightarrow> (1, 0))"

text \<open>Line 199: the rocket is outside the playfield.\<close>

definition fora_do_campo :: "int \<Rightarrow> int \<Rightarrow> int \<Rightarrow> int \<Rightarrow> int \<Rightarrow> int \<Rightarrow> bool" where
  "fora_do_campo fx fy sw sh hud c = (fx < 0 \<or> sw \<le> fx \<or> fy < hud \<or> sh - c \<le> fy)"

text \<open>
  The task of the rocket in slot \<open>j\<close>. \<open>FInit\<close> is the \<^verbatim>\<open>switch\<close> of lines 178--184,
  \<open>FTop\<close> the loop head (line 186), \<open>FMove\<close> lines 187--191, \<open>FMetrics\<close> lines 193--197,
  \<open>FBounds\<close> the reads of the rocket's own position made with no lock held (lines 199 and
  207, taken as one read), \<open>FOut\<close> lines 200--203, \<open>FScan\<close> lines 208--226 (and the sleep
  of line 253 when nothing was hit), \<open>FMark\<close> lines 229--231 with the locals \<^verbatim>\<open>first\<close> and
  \<^verbatim>\<open>hit_ship\<close>, \<open>FExplode\<close> lines 233--240, \<open>FScore\<close> lines 241--250, \<open>FExit\<close> lines
  256--258.
\<close>

datatype fpc =
    FInit
  | FTop
  | FMove
  | FMetrics
  | FBounds int int int int
  | FOut
  | FScan int int
  | FMark bool nat
  | FExplode bool nat
  | FScore bool
  | FExit
  | FDone

fun thread_foguete :: "nat \<Rightarrow> fpc \<Rightarrow> GameState \<Rightarrow> fpc \<times> GameState" where
  "thread_foguete j FInit g =
     (case dir_vec (fog_direcao (foguetes g ! j)) of
        (vx, vy) \<Rightarrow>
          (FTop, g\<lparr>foguetes := (foguetes g)[j := (foguetes g ! j)\<lparr>fog_dx := vx, fog_dy := vy\<rparr>]\<rparr>))"
| "thread_foguete j FTop g = (if game_over g then (FExit, g) else (FMove, g))"
| "thread_foguete j FMove g =
     (if \<not> fog_ativa (foguetes g ! j) then (FExit, g)
      else (let f = foguetes g ! j;
                f1 = f\<lparr>fog_x := fog_x f + fog_dx f, fog_y := fog_y f + fog_dy f\<rparr>
            in (FMetrics, g\<lparr>foguetes := (foguetes g)[j := f1]\<rparr>)))"
| "thread_foguete j FMetrics g =
     (FBounds (screen_width g) (screen_height g) (hud_height g) (controls_height g), g)"
| "thread_foguete j (FBounds sw sh hud c) g =
     (let fx = fog_x (foguetes g ! j); fy = fog_y (foguetes g ! j)
      in if fora_do_campo fx fy sw sh hud c then (FOut, g) else (FScan fx fy, g))"
| "thread_foguete j FOut g =
     (FExit, g\<lparr>foguetes := (foguetes g)[j := (foguetes g ! j)\<lparr>fog_ativa := False\<rparr>]\<rparr>)"
| "thread_foguete j (FScan fx fy) g =
     (case foguete_scan_naves fx fy g of
        (None, g1) \<Rightarrow> (FTop, g1)
      | (Some hit_ship, g1) \<Rightarrow> (FMark True hit_ship, g1))"
| "thread_foguete j (FMark first hit_ship) g =
     (FExplode first hit_ship,
      g\<lparr>foguetes := (foguetes g)[j := (foguetes g ! j)\<lparr>fog_ativa := False\<rparr>]\<rparr>)"
| "thread_foguete j (FExplode first hit_ship) g = (FScore first, g)"
| "thread_foguete j (FScore first) g = (FExit, score_kill first g)"
| "thread_foguete j FExit g = (FDone, g\<lparr>num_foguetes_ativos := num_foguetes_ativos g - 1\<rparr>)"
| "thread_foguete j FDone g = (FDone, g)"

subsection \<open>thread\_artilheiro\<close>

definition scan_lancador_vazio :: "GameState \<Rightarrow> nat option" where
  "scan_lancador_vazio g =
     find (\<lambda>i. \<not> tem_foguete (lancadores g ! i)) [0..<nat (num_lancadores g)]"

text \<open>Lines 281--286: the region entered again after the reload sleep.\<close>

definition artilheiro_recarrega :: "nat \<Rightarrow> DirecaoDisparo \<Rightarrow> GameState \<Rightarrow> GameState" where
  "artilheiro_recarrega i dir_atual g =
     (if \<not> game_over g \<and> \<not> tem_foguete (lancadores g ! i)
      then g\<lparr>lancadores := (lancadores g)[i := (lancadores g ! i)\<lparr>tem_foguete := True,
                                                                  direcao := dir_atual\<rparr>]\<rparr>
      else g)"

text \<open>
  \<open>AScan\<close> is the region of lines 270--279 (and, when every bay is loaded, the head of the
  waiting loop, line 292); \<open>AReload\<close> is the task asleep in \<^verbatim>\<open>usleep\<close> with no lock held,
  and its step is the region of lines 281--286; \<open>AWait\<close> is the task blocked in
  \<^verbatim>\<open>pthread_cond_wait\<close>, and its step is a wake-up (lines 294--297 and the loop head),
  which may come at any time: by a signal, by the broadcast at shutdown, or spuriously.
\<close>

datatype apc =
    ATop
  | AScan
  | AReload nat DirecaoDisparo
  | AWait
  | ADone

fun thread_artilheiro :: "apc \<Rightarrow> GameState \<Rightarrow> apc \<times> GameState" where
  "thread_artilheiro ATop g = (if game_over g then (ADone, g) else (AScan, g))"
| "thread_artilheiro AScan g =
     (case scan_lancador_vazio g of
        Some i \<Rightarrow> (AReload i (direcao_atual g), g)
      | None \<Rightarrow> if game_over g then (ATop, g) else (AWait, g))"
| "thread_artilheiro (AReload i dir_atual) g = (ATop, artilheiro_recarrega i dir_atual g)"
| "thread_artilheiro AWait g =
     (case scan_lancador_vazio g of
        Some i \<Rightarrow> (ATop, g)
      | None \<Rightarrow> if game_over g then (ATop, g) else (AWait, g))"
| "thread_artilheiro ADone g = (ADone, g)"

subsection \<open>What the environment decides\<close>

text \<open>
  The clock, the spawn timer, \<^verbatim>\<open>rand()\<close>, \<^verbatim>\<open>malloc\<close>, \<^verbatim>\<open>pthread_create\<close>, the measured
  terminal size and the key returned by \<^verbatim>\<open>getch\<close>.
\<close>

record env =
  env_now :: int
  env_due :: bool
  env_rand :: nat
  env_malloc_ok :: bool
  env_create_ok :: bool
  env_real_h :: int
  env_real_w :: int
  env_key :: int

subsection \<open>thread\_principal, followed by finalizar\_threads\<close>

text \<open>
  \<open>PTop\<close> is the loop head (line 26) and \<open>PCheck\<close> lines 28--41; \<open>PDecide\<close> (lines 43--59)
  carries the locals \<^verbatim>\<open>lose_now\<close>, \<^verbatim>\<open>all_handled\<close>, \<^verbatim>\<open>spawned\<close> and \<^verbatim>\<open>total\<close> (here
  \<open>tot\<close>), and \<open>env_due\<close> says whether the spawn interval has elapsed. The \<open>PSpawn\<close>
  counters are the regions of \<^verbatim>\<open>criar_nave\<close>: lines 89--94, 96--118, 120--122, 124--128
  and 130--133 of game.c. \<open>PRender\<close> is the renderer's snapshot and \<open>PResize\<close>, which
  carries the screen size copied out by it, the resize region. \<open>PFinalizar\<close> is the first
  region of \<^verbatim>\<open>finalizar_threads\<close> (lines 208--211 of game.c), which \<^verbatim>\<open>main\<close> calls when
  the loop has returned; the joins that follow it change no game data. The third
  component of a step is the slot of a ship task started by it.
\<close>

datatype ppc =
    PTop
  | PCheck
  | PDecide bool bool int int
  | PSpawnCheck
  | PSpawnSlot
  | PSpawnConta nat
  | PSpawnLaunch nat
  | PSpawnRollback nat
  | PRender
  | PResize int int
  | PFinalizar
  | PDone

fun thread_principal :: "env \<Rightarrow> ppc \<Rightarrow> GameState \<Rightarrow> ppc \<times> GameState \<times> nat option" where
  "thread_principal e PTop g = (if game_over g then (PFinalizar, g, None) else (PCheck, g, None))"
| "thread_principal e PCheck g =
     (let g1 = g\<lparr>elapsed_sec := env_now e - start_time g\<rparr>;
          tot = naves_total g1; destroyed = naves_destruidas g1;
          reached = naves_chegaram g1; spawned = naves_spawned g1;
          lose_now = (tot sdiv 2 < reached);
          all_handled = (tot \<le> destroyed + reached)
      in (PDecide lose_now all_handled spawned tot, g1, None))"
| "thread_principal e (PDecide lose_now all_handled spawned tot) g =
     (if lose_now \<or> all_handled then (PFinalizar, g\<lparr>game_over := True\<rparr>, None)
      else if spawned < tot \<and> env_due e then (PSpawnCheck, g, None)
      else (PRender, g, None))"
| "thread_principal e PSpawnCheck g =
     (if naves_total g \<le> naves_spawned g then (PRender, g, None) else (PSpawnSlot, g, None))"
| "thread_principal e PSpawnSlot g =
     (case criar_nave_slot (env_rand e) g of
        (None, g1) \<Rightarrow> (PRender, g1, None)
      | (Some idx, g1) \<Rightarrow> (PSpawnConta idx, g1, None))"
| "thread_principal e (PSpawnConta idx) g = (PSpawnLaunch idx, criar_nave_conta g, None)"
| "thread_principal e (PSpawnLaunch idx) g =
     (if \<not> env_malloc_ok e then (PRender, g, None)
      else if env_create_ok e then (PRender, g, Some idx)
      else (PSpawnRollback idx, g, None))"
| "thread_principal e (PSpawnRollback idx) g = (PRender, criar_nave_rollback idx g, None)"
| "thread_principal e PRender g = (PResize (screen_width g) (screen_height g), g, None)"
| "thread_principal e (PResize sw sh) g =
     (PTop, render_resize sw sh (env_real_h e) (env_real_w e) g, None)"
| "thread_principal e PFinalizar g = (PDone, g\<lparr>game_over := True\<rparr>, None)"
| "thread_principal e PDone g = (PDone, g, None)"

subsection \<open>thread\_input\<close>

text \<open>
  \<open>IKey\<close> is \<^verbatim>\<open>getch\<close> followed by \<^verbatim>\<open>process_input\<close>: for the space key the locked region
  of \<^verbatim>\<open>tentar_disparar\<close>, for every other key the \<^verbatim>\<open>switch\<close>. \<open>ILaunch\<close> and \<open>IRollback\<close>
  are the rest of \<^verbatim>\<open>tentar_disparar\<close>. The third component of a step is the slot of a
  rocket task started by it.
\<close>

datatype ipc =
    ITop
  | IKey
  | ILaunch nat
  | IRollback nat
  | IDone

fun thread_input :: "env \<Rightarrow> ipc \<Rightarrow> GameState \<Rightarrow> ipc \<times> GameState \<times> nat option" where
  "thread_input e ITop g = (if game_over g then (IDone, g, None) else (IKey, g, None))"
| "thread_input e IKey g =
     (if env_key e = ERR then (ITop, g, None)
      else if env_key e = ch CHR '' '' then
        (case disparar_secao g of
           (None, g1) \<Rightarrow> (ITop, g1, None)
         | (Some foguete_idx, g1) \<Rightarrow> (ILaunch foguete_idx, g1, None))
      else (ITop, process_input_tecla (env_key e) g, None))"
| "thread_input e (ILaunch foguete_idx) g =
     (if \<not> env_malloc_ok e then (ITop, g, None)
      else if env_create_ok e then (ITop, g, Some foguete_idx)
      else (IRollback foguete_idx, g, None))"
| "thread_input e (IRollback foguete_idx) g = (ITop, disparar_rollback foguete_idx g, None)"
| "thread_input e IDone g = (IDone, g, None)"

section \<open>The running system\<close>

text \<open>
  A configuration is the shared game state, the program counters of the three long-lived
  tasks, and one entry (slot, program counter) for every entity task started so far. An
  action lets one task take its next step; a run is any sequence of actions, so every
  interleaving of the tasks at the granularity of their locked regions is a run.
\<close>

record config =
  gs :: GameState
  principal :: ppc
  input :: ipc
  artilheiro :: apc
  nave_threads :: "(nat \<times> npc) list"
  foguete_threads :: "(nat \<times> fpc) list"

datatype action =
    Principal env
  | Input env
  | Artilheiro
  | NaveT nat
  | FogueteT nat

definition novo :: "'a \<Rightarrow> nat option \<Rightarrow> (nat \<times> 'a) list" where
  "novo pc0 t = (case t of None \<Rightarrow> [] | Some i \<Rightarrow> [(i, pc0)])"

fun exec :: "action \<Rightarrow> config \<Rightarrow> config" where
  "exec (Principal e) c =
     (case thread_principal e (principal c) (gs c) of
        (pc1, g1, t) \<Rightarrow>
          c\<lparr>gs := g1, principal := pc1, nave_threads := nave_threads c @ novo NTop t\<rparr>)"
| "exec (Input e) c =
     (case thread_input e (input c) (gs c) of
        (pc1, g1, t) \<Rightarrow>
          c\<lparr>gs := g1, input := pc1, foguete_threads := foguete_threads c @ novo FInit t\<rparr>)"
| "exec Artilheiro c =
     (case thread_artilheiro (artilheiro c) (gs c) of
        (pc1, g1) \<Rightarrow> c\<lparr>gs := g1, artilheiro := pc1\<rparr>)"
| "exec (NaveT k) c =
     (if k < length (nave_threads c) then
        (case nave_threads c ! k of
           (i, pc) \<Rightarrow>
             (case thread_nave i pc (gs c) of
                (pc1, g1) \<Rightarrow> c\<lparr>gs := g1, nave_threads := (nave_threads c)[k := (i, pc1)]\<rparr>))
      else c)"
| "exec (FogueteT k) c =
     (if k < length (foguete_threads c) then
        (case foguete_threads c ! k of
           (j, pc) \<Rightarrow>
             (case thread_foguete j pc (gs c) of
                (pc1, g1) \<Rightarrow> c\<lparr>gs := g1, foguete_threads := (foguete_threads c)[k := (j, pc1)]\<rparr>))
      else c)"

definition run :: "action list \<Rightarrow> config \<Rightarrow> config" where
  "run sched c = fold exec sched c"

text \<open>
  \<^verbatim>\<open>main\<close>: the state after \<^verbatim>\<open>game_init\<close>, with the input task, the reloader and the
  orchestrating loop at their first instruction.
\<close>

definition config_inicial :: "int \<Rightarrow> int \<Rightarrow> config" where
  "config_inicial now d =
     \<lparr>gs = game_init now d, principal = PTop, input = ITop, artilheiro = ATop,
      nave_threads = [], foguete_threads = []\<rparr>"

section \<open>Array sizes and example states\<close>

text \<open>The sizes the C declarations give the three arrays, and the bound on the launcher count.\<close>

definition tamanhos_ok :: "GameState \<Rightarrow> bool" where
  "tamanhos_ok g =
     (length (lancadores g) = MAX_LANCADORES \<and> num_lancadores g \<le> int MAX_LANCADORES
      \<and> length (naves g) = MAX_NAVES \<and> length (foguetes g) = MAX_FOGUETES)"

text \<open>The Easy game right after initialisation, with launcher 0 loaded by the reloader.\<close>

definition estado_carregado :: GameState where
  "estado_carregado =
     (game_init 0 0)\<lparr>lancadores :=
        (lancadores (game_init 0 0))[0 := \<lparr>tem_foguete = True, direcao = DIR_VERTICAL\<rparr>]\<rparr>"

text \<open>The Easy game with the aim position at the right edge of the 120-column screen.\<close>

definition estado_resize :: GameState where
  "estado_resize = (game_init 0 0)\<lparr>bateria_x := 119\<rparr>"

text \<open>The Easy game with 20 of its 30 ships spawned and 16 of them on the ground.\<close>

definition estado_derrota :: GameState where
  "estado_derrota = (game_init 0 0)\<lparr>naves_chegaram := 16, naves_spawned := 20\<rparr>"


definition env0 :: env where
  "env0 = \<lparr>env_now = 0, env_due = True, env_rand = 7, env_malloc_ok = True,
           env_create_ok = True, env_real_h = 32, env_real_w = 120, env_key = ERR\<rparr>"


section \<open>Counting for the invariants\<close>

text \<open>
  Quantities read off a configuration: the number of active ship slots; for each entity
  task, whether it has passed a gate with \<^verbatim>\<open>first\<close> true and has not yet run its scoring
  region; and, for the orchestrating loop inside \<^verbatim>\<open>criar_nave\<close>, whether it has passed
  the check of \<^verbatim>\<open>naves_spawned\<close> (\<open>reserva\<close>) and whether it has activated a slot
  (\<open>janela\<close>) without having incremented \<^verbatim>\<open>naves_spawned\<close> yet.
\<close>

definition ativas :: "Nave list \<Rightarrow> nat" where
  "ativas ns = length (filter nave_ativa ns)"

fun npend :: "npc \<Rightarrow> nat" where
  "npend (NGroundScore first) = (if first then 1 else 0)"
| "npend (NKillScore first nx ny) = (if first then 1 else 0)"
| "npend pc = 0"

fun fpend :: "fpc \<Rightarrow> nat" where
  "fpend (FMark first hit_ship) = (if first then 1 else 0)"
| "fpend (FExplode first hit_ship) = (if first then 1 else 0)"
| "fpend (FScore first) = (if first then 1 else 0)"
| "fpend pc = 0"

definition npends :: "(nat \<times> npc) list \<Rightarrow> nat" where
  "npends ts = sum_list (map (\<lambda>t. npend (snd t)) ts)"

definition fpends :: "(nat \<times> fpc) list \<Rightarrow> nat" where
  "fpends ts = sum_list (map (\<lambda>t. fpend (snd t)) ts)"

fun reserva :: "ppc \<Rightarrow> nat" where
  "reserva PSpawnSlot = 1"
| "reserva (PSpawnConta idx) = 1"
| "reserva pc = 0"

fun janela :: "ppc \<Rightarrow> nat" where
  "janela (PSpawnConta idx) = 1"
| "janela pc = 0"

fun ppc_idx_ok :: "ppc \<Rightarrow> bool" where
  "ppc_idx_ok (PSpawnConta idx) = (idx < MAX_NAVES)"
| "ppc_idx_ok (PSpawnLaunch idx) = (idx < MAX_NAVES)"
| "ppc_idx_ok (PSpawnRollback idx) = (idx < MAX_NAVES)"
| "ppc_idx_ok pc = True"

definition inv_contagem :: "config \<Rightarrow> bool" where
  "inv_contagem c =
     (length (naves (gs c)) = MAX_NAVES
      \<and> (\<forall>t \<in> set (nave_threads c). fst t < MAX_NAVES)
      \<and> ppc_idx_ok (principal c)
      \<and> naves_spawned (gs c) + int (reserva (principal c)) \<le> naves_total (gs c)
      \<and> naves_destruidas (gs c) + naves_chegaram (gs c) + int (ativas (naves (gs c)))
          + int (npends (nave_threads c)) + int (fpends (foguete_threads c))
          \<le> naves_spawned (gs c) + int (janela (principal c)))"
section \<open>The race for one slot\<close>

text \<open>
  The racing scenario: slot \<open>i\<close> holds the only live ship; every ship task is bound to
  slot \<open>i\<close> and stands at one of its two gates (lines 107 and 141 of \<^verbatim>\<open>thread_nave\<close>);
  every rocket task stands at its scan (line 210 of \<^verbatim>\<open>thread_foguete\<close>) with the ship
  inside its collision box. A race is a run made of entity-task actions only.
\<close>

fun no_portao :: "npc \<Rightarrow> bool" where
  "no_portao NGroundGate = True"
| "no_portao (NKillGate nx ny) = True"
| "no_portao pc = False"

fun na_mira :: "int \<Rightarrow> int \<Rightarrow> fpc \<Rightarrow> bool" where
  "na_mira sx sy (FScan fx fy) = na_caixa sx sy fx fy"
| "na_mira sx sy pc = False"

definition corrida :: "nat \<Rightarrow> config \<Rightarrow> bool" where
  "corrida i c =
     (length (naves (gs c)) = MAX_NAVES \<and> i < MAX_NAVES
      \<and> nave_ativa (naves (gs c) ! i) \<and> ativas (naves (gs c)) = 1
      \<and> list_all (\<lambda>t. fst t = i \<and> no_portao (snd t)) (nave_threads c)
      \<and> list_all (\<lambda>t. na_mira (nave_x (naves (gs c) ! i)) (nave_y (naves (gs c) ! i)) (snd t))
           (foguete_threads c))"

fun entidade :: "action \<Rightarrow> bool" where
  "entidade (NaveT k) = True"
| "entidade (FogueteT k) = True"
| "entidade a = False"

text \<open>The action addresses a task that exists in the configuration.\<close>

fun efetiva :: "config \<Rightarrow> action \<Rightarrow> bool" where
  "efetiva c (NaveT k) = (k < length (nave_threads c))"
| "efetiva c (FogueteT k) = (k < length (foguete_threads c))"
| "efetiva c a = False"

text \<open>
  An example race: the Easy game with one live ship in slot 0 at (10, 5); two ship tasks
  of slot 0, one at the ground gate and one at the kill gate, and two rocket tasks at
  their scan with the ship in range.
\<close>

definition config_corrida :: config where
  "config_corrida =
     \<lparr>gs = (game_init 0 0)\<lparr>naves :=
               (naves (game_init 0 0))[0 := zero_nave\<lparr>nave_x := 10, nave_y := 5,
                                                    nave_ativa := True\<rparr>],
             num_naves_ativas := 1, naves_spawned := 1\<rparr>,
      principal = PTop, input = ITop, artilheiro = ATop,
      nave_threads = [(0, NGroundGate), (0, NKillGate 10 5)],
      foguete_threads = [(0, FScan 11 6), (1, FScan 9 4)]\<rparr>"

text \<open>The Easy game already terminated, with its three long-lived tasks still running.\<close>

definition config_terminado :: config where
  "config_terminado = (config_inicial 0 0)\<lparr>gs := (game_init 0 0)\<lparr>game_over := True\<rparr>\<rparr>"

text \<open>
  What stays true while only entity tasks run, from a configuration with \<open>d0\<close> ships
  destroyed, \<open>r0\<close> escaped, score \<open>p0\<close> and \<open>h0\<close> hits, in which scored events, live ships
  and winners waiting to score added up to \<open>q0\<close>.
\<close>

definition inv_corrida :: "int \<Rightarrow> int \<Rightarrow> int \<Rightarrow> int \<Rightarrow> int \<Rightarrow> config \<Rightarrow> bool" where
  "inv_corrida q0 d0 r0 p0 h0 c =
     (length (naves (gs c)) = MAX_NAVES
      \<and> list_all (\<lambda>t. fst t < MAX_NAVES) (nave_threads c)
      \<and> d0 \<le> naves_destruidas (gs c) \<and> r0 \<le> naves_chegaram (gs c)
      \<and> naves_destruidas (gs c) + naves_chegaram (gs c) + int (ativas (naves (gs c)))
          + int (npends (nave_threads c)) + int (fpends (foguete_threads c)) = q0
      \<and> pontuacao (gs c) = p0 + 10 * (naves_destruidas (gs c) - d0)
      \<and> shots_hit (gs c) = h0 + (naves_destruidas (gs c) - d0))"

text \<open>Scored events, live ships and winners waiting to score, added up.\<close>

definition saldo :: "config \<Rightarrow> int" where
  "saldo c =
     naves_destruidas (gs c) + naves_chegaram (gs c) + int (ativas (naves (gs c)))
       + int (npends (nave_threads c)) + int (fpends (foguete_threads c))"

text \<open>
  Two interleavings of the example race: in the first the rocket task of slot 1 gets to
  the ship first, in the second the ship task at the ground gate does.
\<close>

definition ordem_foguete :: "action list" where
  "ordem_foguete =
     [FogueteT 1, NaveT 0, NaveT 1, FogueteT 0, FogueteT 1, FogueteT 1, FogueteT 1,
      NaveT 0, NaveT 1]"

definition ordem_chao :: "action list" where
  "ordem_chao = [NaveT 0, FogueteT 0, FogueteT 1, NaveT 1, NaveT 0, NaveT 1]"

section \<open>An interleaving that re-arms a slot\<close>

text \<open>
  The environment of the run: a 120 by 32 terminal, \<^verbatim>\<open>rand()\<close> returning 60, every
  \<^verbatim>\<open>malloc\<close> and \<^verbatim>\<open>pthread_create\<close> succeeding, the spawn interval elapsed, and for the
  input task the space key.
\<close>

definition env_nave :: env where
  "env_nave = env0\<lparr>env_rand := 60\<rparr>"

definition env_disparo :: env where
  "env_disparo = env0\<lparr>env_key := ch CHR '' ''\<rparr>"

text \<open>
  From the start of the game: the reloader loads bay 0; \<^verbatim>\<open>criar_nave\<close> spawns a ship into
  slot 0 and starts its task; the ship takes 22 steps down; the player fires; the rocket
  task moves once and reads its position; the ship task moves once more, finds the rocket
  in its scan (lines 124--137) and releases the lock with \<^verbatim>\<open>colidiu\<close> true; the rocket
  task runs its own scan (lines 210--226) and flips the ship.
\<close>

definition ordem_colisao :: "action list" where
  "ordem_colisao =
     replicate 3 Artilheiro
     @ replicate 7 (Principal env_nave)
     @ replicate 88 (NaveT 0)
     @ replicate 3 (Input env_disparo)
     @ replicate 5 (FogueteT 0)
     @ replicate 4 (NaveT 0)
     @ [FogueteT 0]"

text \<open>
  Then the orchestrating loop comes round (render, loop head, check, decision) and calls
  \<^verbatim>\<open>criar_nave\<close>, whose scan (lines 102--104) finds slot 0 free.
\<close>

definition ordem_rearma :: "action list" where
  "ordem_rearma = replicate 9 (Principal env_nave)"

text \<open>
  Then the old ship task runs its kill gate and its scoring region (lines 140--158), and
  the rocket task marks itself and runs its scoring region (lines 229--249).
\<close>

definition ordem_pontua :: "action list" where
  "ordem_pontua = replicate 2 (NaveT 0) @ replicate 3 (FogueteT 0)"

section \<open>Properties of the fire action\<close>

lemma scan_lancador_carregado_None:
  "(scan_lancador_carregado g = None) =
     (\<forall>i. i < nat (num_lancadores g) \<longrightarrow> \<not> tem_foguete (lancadores g ! i))"
  by (auto simp: scan_lancador_carregado_def find_None_iff)

lemma scan_foguete_livre_None:
  "(scan_foguete_livre g = None) = (\<forall>i. i < MAX_FOGUETES \<longrightarrow> fog_ativa (foguetes g ! i))"
  by (auto simp: scan_foguete_livre_def find_None_iff)

lemma disparar_secao_nothing:
  assumes "scan_lancador_carregado g = None \<or> scan_foguete_livre g = None"
  shows "disparar_secao g = (None, g)"
  using assms by (auto simp: disparar_secao_def split: option.splits)

lemma tentar_disparar_nothing:
  assumes "scan_lancador_carregado g = None \<or> scan_foguete_livre g = None"
  shows "tentar_disparar m c g = (False, g, None)"
  by (simp add: tentar_disparar_def disparar_secao_nothing [OF assms])

text \<open>
  C4. When no loaded bay exists or no free projectile slot exists, \<^verbatim>\<open>tentar_disparar\<close>
  returns false, starts no task and leaves the whole game state unchanged: every launch
  bay, every projectile slot and the shot counter. The same holds for any number of
  further attempts made while the bays stay empty (or the slots stay full).
\<close>

theorem tentar_disparar_no_shot:
  assumes "(\<forall>i. i < nat (num_lancadores g) \<longrightarrow> \<not> tem_foguete (lancadores g ! i))
           \<or> (\<forall>i. i < MAX_FOGUETES \<longrightarrow> fog_ativa (foguetes g ! i))"
  shows "tentar_disparar malloc_ok create_ok g = (False, g, None)
         \<and> fold (\<lambda>(m, c) s. fst (snd (tentar_disparar m c s))) outcomes g = g"
proof -
  have none: "scan_lancador_carregado g = None \<or> scan_foguete_livre g = None"
    using assms by (simp add: scan_lancador_carregado_None scan_foguete_livre_None)
  have rep: "fold (\<lambda>(m, c) s. fst (snd (tentar_disparar m c s))) outcomes g = g"
    by (induction outcomes) (simp_all add: tentar_disparar_nothing [OF none] split_def)
  show ?thesis
    using tentar_disparar_nothing [OF none] rep by simp
qed

theorem tentar_disparar_no_shot_witness:
  "((\<forall>i. i < nat (num_lancadores (game_init 0 0))
          \<longrightarrow> \<not> tem_foguete (lancadores (game_init 0 0) ! i))
    \<or> (\<forall>i. i < MAX_FOGUETES \<longrightarrow> fog_ativa (foguetes (game_init 0 0) ! i)))
   \<and> tentar_disparar True True (game_init 0 0) = (False, game_init 0 0, None)
   \<and> fold (\<lambda>(m, c) s. fst (snd (tentar_disparar m c s))) [(True, True), (True, False)]
        (game_init 0 0) = game_init 0 0"
proof -
  have h: "(\<forall>i. i < nat (num_lancadores (game_init 0 0))
               \<longrightarrow> \<not> tem_foguete (lancadores (game_init 0 0) ! i))
           \<or> (\<forall>i. i < MAX_FOGUETES \<longrightarrow> fog_ativa (foguetes (game_init 0 0) ! i))"
    by (simp add: game_init_def DIFFS_def mk_cfg_def MAX_LANCADORES_def zero_lancador_def)
  show ?thesis
    using h tentar_disparar_no_shot [OF h, of True True "[(True, True), (True, False)]"]
    by blast
qed

lemma scan_lancador_carregado_Some:
  "scan_lancador_carregado g = Some li
   \<Longrightarrow> li < nat (num_lancadores g) \<and> tem_foguete (lancadores g ! li)"
  by (auto simp: scan_lancador_carregado_def find_Some_iff)

lemma scan_foguete_livre_Some:
  "scan_foguete_livre g = Some fi \<Longrightarrow> fi < MAX_FOGUETES \<and> \<not> fog_ativa (foguetes g ! fi)"
  by (auto simp: scan_foguete_livre_def find_Some_iff)

text \<open>
  C9. When \<^verbatim>\<open>pthread_create\<close> fails after the fire action has consumed the first loaded
  bay \<open>li\<close> and populated the first free slot \<open>fi\<close>, \<^verbatim>\<open>tentar_disparar\<close> returns false and
  starts no task; the slot is inactive again and the active-projectile count is one less
  than the fire action left it; but the shot counter stays incremented and the consumed
  bay stays unloaded.
\<close>

theorem tentar_disparar_falha_no_lancamento:
  assumes wf: "tamanhos_ok g"
      and li: "scan_lancador_carregado g = Some li"
      and fi: "scan_foguete_livre g = Some fi"
      and res: "tentar_disparar True False g = (fired, g', t)"
  shows "\<not> fired \<and> t = None
         \<and> \<not> fog_ativa (foguetes g' ! fi)
         \<and> num_foguetes_ativos g' = num_foguetes_ativos (snd (disparar_secao g)) - 1
         \<and> num_foguetes_ativos g' = num_foguetes_ativos g
         \<and> shots_fired g' = shots_fired g + 1
         \<and> tem_foguete (lancadores g ! li) \<and> \<not> tem_foguete (lancadores g' ! li)"
proof -
  from li have l1: "li < nat (num_lancadores g)" and l2: "tem_foguete (lancadores g ! li)"
    by (simp_all add: scan_lancador_carregado_Some)
  from fi have f1: "fi < MAX_FOGUETES" by (simp add: scan_foguete_livre_Some)
  from wf l1 have l3: "li < length (lancadores g)" unfolding tamanhos_ok_def by linarith
  from wf f1 have f3: "fi < length (foguetes g)" by (simp add: tamanhos_ok_def)
  from res li fi have fired: "\<not> fired" and t: "t = None"
    and g': "g' = disparar_rollback fi (snd (disparar_secao g))"
    by (auto simp: tentar_disparar_def disparar_secao_def Let_def)
  have "\<not> fog_ativa (foguetes g' ! fi)"
    using f3 li fi by (simp add: g' disparar_rollback_def disparar_secao_def Let_def)
  moreover have "num_foguetes_ativos g' = num_foguetes_ativos (snd (disparar_secao g)) - 1"
    by (simp add: g' disparar_rollback_def)
  moreover have "num_foguetes_ativos g' = num_foguetes_ativos g"
    using li fi by (simp add: g' disparar_rollback_def disparar_secao_def Let_def)
  moreover have "shots_fired g' = shots_fired g + 1"
    using li fi by (simp add: g' disparar_rollback_def disparar_secao_def Let_def)
  moreover have "\<not> tem_foguete (lancadores g' ! li)"
    using l3 li fi by (simp add: g' disparar_rollback_def disparar_secao_def Let_def)
  ultimately show ?thesis using fired t l2 by simp
qed

theorem tentar_disparar_falha_no_lancamento_witness:
  "tamanhos_ok estado_carregado
   \<and> scan_lancador_carregado estado_carregado = Some 0
   \<and> scan_foguete_livre estado_carregado = Some 0
   \<and> fst (tentar_disparar True False estado_carregado) = False
   \<and> shots_fired (fst (snd (tentar_disparar True False estado_carregado)))
       = shots_fired estado_carregado + 1
   \<and> \<not> tem_foguete (lancadores (fst (snd (tentar_disparar True False estado_carregado))) ! 0)
   \<and> \<not> fog_ativa (foguetes (fst (snd (tentar_disparar True False estado_carregado))) ! 0)"
proof -
  have a: "tamanhos_ok estado_carregado" by code_simp
  have b: "scan_lancador_carregado estado_carregado = Some 0" by code_simp
  have c: "scan_foguete_livre estado_carregado = Some 0" by code_simp
  obtain fired g' t where r: "tentar_disparar True False estado_carregado = (fired, g', t)"
    using prod_cases3 by blast
  show ?thesis
    using a b c tentar_disparar_falha_no_lancamento [OF a b c r] by (simp add: r)
qed

section \<open>Spawn failure (criar\_nave)\<close>

lemma criar_nave_falha_geral:
  assumes "naves_spawned g < naves_total g" and "num_naves_ativas g < int MAX_NAVES"
      and "scan_nave_livre g = Some idx" and "malloc_ok \<longrightarrow> \<not> create_ok"
  shows "naves_spawned (fst (criar_nave r malloc_ok create_ok g)) = naves_spawned g + 1
         \<and> snd (criar_nave r malloc_ok create_ok g) = None"
  using assms
  by (auto simp: criar_nave_def criar_nave_slot_def criar_nave_conta_def
      criar_nave_rollback_def Let_def)

text \<open>
  C2. A spawn attempt whose task launch fails should leave \<^verbatim>\<open>naves_spawned\<close> as it was
  before the attempt, with the slot rolled back. Evaluated on the Easy game right after
  initialisation (no ship spawned): when \<^verbatim>\<open>pthread_create\<close> fails, \<^verbatim>\<open>criar_nave\<close> rolls
  the slot back (inactive, active count 0) but leaves \<^verbatim>\<open>naves_spawned\<close> at 1; when
  \<^verbatim>\<open>malloc\<close> fails it rolls nothing back at all (slot active, active count 1,
  \<^verbatim>\<open>naves_spawned\<close> 1, no task).
\<close>

theorem criar_nave_falha_mantem_spawned:
  "naves_spawned (game_init 0 0) = 0
   \<and> naves_spawned (fst (criar_nave 7 True False (game_init 0 0))) = 1
   \<and> \<not> nave_ativa (naves (fst (criar_nave 7 True False (game_init 0 0))) ! 0)
   \<and> num_naves_ativas (fst (criar_nave 7 True False (game_init 0 0))) = 0
   \<and> snd (criar_nave 7 True False (game_init 0 0)) = None
   \<and> naves_spawned (fst (criar_nave 7 False True (game_init 0 0))) = 1
   \<and> nave_ativa (naves (fst (criar_nave 7 False True (game_init 0 0))) ! 0)
   \<and> num_naves_ativas (fst (criar_nave 7 False True (game_init 0 0))) = 1
   \<and> snd (criar_nave 7 False True (game_init 0 0)) = None"
  by code_simp

section \<open>The aim position (process\_input, render\_game)\<close>

lemma disparar_secao_bateria:
  "bateria_x (snd (disparar_secao g)) = bateria_x g
   \<and> screen_width (snd (disparar_secao g)) = screen_width g"
  by (simp add: disparar_secao_def Let_def split: option.splits)

lemma tentar_disparar_bateria:
  "bateria_x (fst (snd (tentar_disparar m c g))) = bateria_x g
   \<and> screen_width (fst (snd (tentar_disparar m c g))) = screen_width g"
  using disparar_secao_bateria [of g]
  by (cases "disparar_secao g")
     (auto simp: tentar_disparar_def disparar_rollback_def split: option.splits)

lemma process_input_tecla_bateria:
  assumes "0 \<le> bateria_x g" "bateria_x g \<le> screen_width g - 1"
  shows "0 \<le> bateria_x (process_input_tecla key g)
         \<and> bateria_x (process_input_tecla key g) \<le> screen_width (process_input_tecla key g) - 1"
  using assms by (simp add: process_input_tecla_def Let_def)

lemma thread_nave_tela:
  assumes "thread_nave i pc g = (pc1, g1)"
  shows "bateria_x g1 = bateria_x g \<and> screen_width g1 = screen_width g"
  using assms
  by (cases pc)
     (auto simp: nave_gate_ground_def nave_gate_kill_def score_ground_def score_kill_def
        nave_scan_foguetes_def Let_def split: if_splits option.splits)

lemma thread_foguete_tela:
  assumes "thread_foguete j pc g = (pc1, g1)"
  shows "bateria_x g1 = bateria_x g \<and> screen_width g1 = screen_width g"
  using assms
  by (cases pc)
     (auto simp: foguete_scan_naves_def score_kill_def Let_def
        split: if_splits option.splits prod.splits)

lemma thread_artilheiro_tela:
  assumes "thread_artilheiro pc g = (pc1, g1)"
  shows "bateria_x g1 = bateria_x g \<and> screen_width g1 = screen_width g"
  using assms
  by (cases pc) (auto simp: artilheiro_recarrega_def split: if_splits option.splits)

lemma thread_input_tela:
  assumes st: "thread_input e pc g = (pc1, g1, t)"
      and lo: "0 \<le> bateria_x g" and hi: "bateria_x g \<le> screen_width g - 1"
  shows "0 \<le> bateria_x g1 \<and> bateria_x g1 \<le> screen_width g1 - 1"
proof (cases pc)
  case IKey
  show ?thesis
  proof (cases "env_key e \<noteq> ERR \<and> env_key e = ch CHR '' ''")
    case True
    with st IKey have "g1 = snd (disparar_secao g)"
      by (auto split: prod.splits option.splits)
    with disparar_secao_bateria [of g] lo hi show ?thesis by simp
  next
    case False
    with st IKey have "g1 = g \<or> g1 = process_input_tecla (env_key e) g"
      by (auto split: if_splits)
    with process_input_tecla_bateria [OF lo hi, of "env_key e"] lo hi show ?thesis by auto
  qed
qed (use st lo hi in \<open>auto simp: disparar_rollback_def split: if_splits\<close>)

lemma thread_principal_tela:
  assumes st: "thread_principal e pc g = (pc1, g1, t)"
      and lo: "0 \<le> bateria_x g" and hi: "bateria_x g \<le> screen_width g - 1"
  shows "0 \<le> bateria_x g1 \<and> bateria_x g1 \<le> screen_width g1 - 1"
  using assms
  by (cases pc)
     (auto simp: criar_nave_slot_def criar_nave_conta_def criar_nave_rollback_def
        render_resize_def Let_def split: if_splits option.splits)

lemma exec_tela:
  assumes lo: "0 \<le> bateria_x (gs c)" and hi: "bateria_x (gs c) \<le> screen_width (gs c) - 1"
  shows "0 \<le> bateria_x (gs (exec a c))
         \<and> bateria_x (gs (exec a c)) \<le> screen_width (gs (exec a c)) - 1"
proof (cases a)
  case (Principal e)
  obtain pc1 g1 t where st: "thread_principal e (principal c) (gs c) = (pc1, g1, t)"
    using prod_cases3 by blast
  from thread_principal_tela [OF st lo hi] show ?thesis by (simp add: Principal st)
next
  case (Input e)
  obtain pc1 g1 t where st: "thread_input e (input c) (gs c) = (pc1, g1, t)"
    using prod_cases3 by blast
  from thread_input_tela [OF st lo hi] show ?thesis by (simp add: Input st)
next
  case Artilheiro
  obtain pc1 g1 where st: "thread_artilheiro (artilheiro c) (gs c) = (pc1, g1)"
    by (cases "thread_artilheiro (artilheiro c) (gs c)") auto
  from thread_artilheiro_tela [OF st] lo hi show ?thesis by (simp add: Artilheiro st)
next
  case (NaveT k)
  show ?thesis
  proof (cases "k < length (nave_threads c)")
    case False
    with lo hi show ?thesis by (simp add: NaveT)
  next
    case True
    obtain i pc where t: "nave_threads c ! k = (i, pc)" by (cases "nave_threads c ! k") auto
    obtain pc1 g1 where st: "thread_nave i pc (gs c) = (pc1, g1)"
      by (cases "thread_nave i pc (gs c)") auto
    from thread_nave_tela [OF st] lo hi True t show ?thesis by (simp add: NaveT st)
  qed
next
  case (FogueteT k)
  show ?thesis
  proof (cases "k < length (foguete_threads c)")
    case False
    with lo hi show ?thesis by (simp add: FogueteT)
  next
    case True
    obtain j pc where t: "foguete_threads c ! k = (j, pc)"
      by (cases "foguete_threads c ! k") auto
    obtain pc1 g1 where st: "thread_foguete j pc (gs c) = (pc1, g1)"
      by (cases "thread_foguete j pc (gs c)") auto
    from thread_foguete_tela [OF st] lo hi True t show ?thesis by (simp add: FogueteT st)
  qed
qed

lemma run_tela:
  "0 \<le> bateria_x (gs c) \<and> bateria_x (gs c) \<le> screen_width (gs c) - 1
   \<Longrightarrow> 0 \<le> bateria_x (gs (run sched c))
       \<and> bateria_x (gs (run sched c)) \<le> screen_width (gs (run sched c)) - 1"
  unfolding run_def
proof (induction sched arbitrary: c)
  case Nil
  then show ?case by simp
next
  case (Cons a sched)
  from Cons.prems exec_tela [of c a]
  have "0 \<le> bateria_x (gs (exec a c))
        \<and> bateria_x (gs (exec a c)) \<le> screen_width (gs (exec a c)) - 1" by simp
  from Cons.IH [OF this] show ?case by simp
qed

lemma tela_inicial:
  "0 \<le> bateria_x (gs (config_inicial now d))
   \<and> bateria_x (gs (config_inicial now d)) \<le> screen_width (gs (config_inicial now d)) - 1"
  by (simp add: config_inicial_def game_init_def Let_def DEF_W_def signed_divide_int_def)

lemma run_tela_inicial:
  "0 \<le> bateria_x (gs (run sched (config_inicial now d)))
   \<and> bateria_x (gs (run sched (config_inicial now d)))
       \<le> screen_width (gs (run sched (config_inicial now d))) - 1"
  by (rule run_tela [OF tela_inicial])

text \<open>
  C10. If \<^verbatim>\<open>bateria_x\<close> is within \<open>[0, screen_width - 1]\<close>, it still is after
  \<^verbatim>\<open>process_input\<close> of any key and after the renderer's resize region. The move-left keys
  decrement it only when it is positive, the move-right keys increment it only when it is
  below \<open>screen_width - 1\<close>, and a resize (to the measured size, at least 40 by 8) sets it
  to the new width minus one exactly when it is not below the new width. And it is within
  that range in every configuration that any interleaving of the tasks reaches from the
  initial one.
\<close>

theorem bateria_x_dentro_da_tela:
  assumes lo: "0 \<le> bateria_x g" and hi: "bateria_x g \<le> screen_width g - 1"
  shows "0 \<le> bateria_x (fst (process_input key malloc_ok create_ok g))
         \<and> bateria_x (fst (process_input key malloc_ok create_ok g))
             \<le> screen_width (fst (process_input key malloc_ok create_ok g)) - 1
         \<and> (key = ch CHR ''a'' \<or> key = ch CHR ''A'' \<or> key = KEY_LEFT \<longrightarrow>
              bateria_x (fst (process_input key malloc_ok create_ok g))
                = (if 0 < bateria_x g then bateria_x g - 1 else bateria_x g))
         \<and> (key = ch CHR ''d'' \<or> key = ch CHR ''D'' \<or> key = KEY_RIGHT \<longrightarrow>
              bateria_x (fst (process_input key malloc_ok create_ok g))
                = (if bateria_x g < screen_width g - 1 then bateria_x g + 1 else bateria_x g))
         \<and> 0 \<le> bateria_x (render_resize sw sh real_h real_w g)
         \<and> bateria_x (render_resize sw sh real_h real_w g)
             \<le> screen_width (render_resize sw sh real_h real_w g) - 1
         \<and> (max real_w 40 \<noteq> sw \<or> max real_h 8 \<noteq> sh \<longrightarrow>
              screen_width (render_resize sw sh real_h real_w g) = max real_w 40
              \<and> bateria_x (render_resize sw sh real_h real_w g)
                  = (if max real_w 40 \<le> bateria_x g then max real_w 40 - 1 else bateria_x g))
         \<and> 0 \<le> bateria_x (render_game real_h real_w g)
         \<and> bateria_x (render_game real_h real_w g)
             \<le> screen_width (render_game real_h real_w g) - 1
         \<and> 0 \<le> bateria_x (gs (run sched (config_inicial now d)))
         \<and> bateria_x (gs (run sched (config_inicial now d)))
             \<le> screen_width (gs (run sched (config_inicial now d))) - 1"
proof -
  let ?p = "fst (process_input key malloc_ok create_ok g)"
  have p: "0 \<le> bateria_x ?p \<and> bateria_x ?p \<le> screen_width ?p - 1"
  proof (cases "key = ch CHR '' ''")
    case True
    then have "?p = fst (snd (tentar_disparar malloc_ok create_ok g))"
      by (simp add: process_input_def)
    then show ?thesis using lo hi tentar_disparar_bateria [of malloc_ok create_ok g] by simp
  next
    case False
    then have "?p = process_input_tecla key g" by (simp add: process_input_def)
    then show ?thesis using process_input_tecla_bateria [OF lo hi, of key] by simp
  qed
  have l: "key = ch CHR ''a'' \<or> key = ch CHR ''A'' \<or> key = KEY_LEFT \<longrightarrow>
              bateria_x ?p = (if 0 < bateria_x g then bateria_x g - 1 else bateria_x g)"
    by (auto simp: process_input_def process_input_tecla_def ch_def KEY_LEFT_def)
  have r: "key = ch CHR ''d'' \<or> key = ch CHR ''D'' \<or> key = KEY_RIGHT \<longrightarrow>
              bateria_x ?p
                = (if bateria_x g < screen_width g - 1 then bateria_x g + 1 else bateria_x g)"
    by (auto simp: process_input_def process_input_tecla_def ch_def KEY_LEFT_def KEY_RIGHT_def)
  let ?r = "render_resize sw sh real_h real_w g"
  have z: "0 \<le> bateria_x ?r \<and> bateria_x ?r \<le> screen_width ?r - 1"
    using lo hi by (simp add: render_resize_def Let_def)
  have c: "max real_w 40 \<noteq> sw \<or> max real_h 8 \<noteq> sh \<longrightarrow>
              screen_width ?r = max real_w 40
              \<and> bateria_x ?r
                  = (if max real_w 40 \<le> bateria_x g then max real_w 40 - 1 else bateria_x g)"
    by (auto simp: render_resize_def Let_def max_def)
  have rg: "0 \<le> bateria_x (render_game real_h real_w g)
            \<and> bateria_x (render_game real_h real_w g)
                \<le> screen_width (render_game real_h real_w g) - 1"
    using lo hi by (simp add: render_game_def render_resize_def Let_def)
  note tudo = run_tela_inicial [of sched now d]
  show ?thesis using p l r z c rg tudo by blast
qed

theorem bateria_x_dentro_da_tela_witness:
  "0 \<le> bateria_x estado_resize \<and> bateria_x estado_resize \<le> screen_width estado_resize - 1
   \<and> bateria_x (fst (process_input KEY_RIGHT True True estado_resize)) = 119
   \<and> bateria_x (fst (process_input KEY_LEFT True True estado_resize)) = 118
   \<and> screen_width (render_resize 120 32 24 80 estado_resize) = 80
   \<and> bateria_x (render_resize 120 32 24 80 estado_resize) = 79"
proof -
  have a: "0 \<le> bateria_x estado_resize" by code_simp
  have b: "bateria_x estado_resize \<le> screen_width estado_resize - 1" by code_simp
  have c: "bateria_x estado_resize = 119" "screen_width estado_resize = 120" by code_simp+
  show ?thesis
    using a b bateria_x_dentro_da_tela [OF a b, of KEY_RIGHT True True 120 32 24 80]
      bateria_x_dentro_da_tela [OF a b, of KEY_LEFT True True 120 32 24 80]
    by (simp add: c)
qed

section \<open>Immediate defeat (thread\_principal)\<close>

text \<open>
  C6. When the check region of the orchestrating loop reads an escaped count strictly
  greater than half of the total (twice the count exceeds the total), its local
  \<^verbatim>\<open>lose_now\<close>, computed with C integer division, is true, and the loop's next step, in
  whatever state \<open>g'\<close> the other tasks have produced meanwhile, sets \<^verbatim>\<open>game_over\<close> and
  leaves the loop without spawning or rendering. Nothing is asked of \<^verbatim>\<open>naves_spawned\<close>.
\<close>

theorem principal_derrota_imediata:
  assumes "0 \<le> naves_total g" and "naves_total g < 2 * naves_chegaram g"
  shows "naves_total g sdiv 2 < naves_chegaram g
         \<and> fst (thread_principal e PCheck g)
           = PDecide True (naves_total g \<le> naves_destruidas g + naves_chegaram g)
               (naves_spawned g) (naves_total g)
         \<and> thread_principal e' (fst (thread_principal e PCheck g)) g'
             = (PFinalizar, g'\<lparr>game_over := True\<rparr>, None)
         \<and> game_over (fst (snd (thread_principal e' (fst (thread_principal e PCheck g)) g')))"
proof -
  from assms(1) have "naves_total g sdiv 2 = naves_total g div 2"
    by (simp add: signed_divide_int_def sgn_if)
  with assms(2) have "naves_total g sdiv 2 < naves_chegaram g" by linarith
  then show ?thesis by (simp add: Let_def)
qed

theorem principal_derrota_imediata_witness:
  "naves_total estado_derrota = 30 \<and> naves_chegaram estado_derrota = 16
   \<and> naves_spawned estado_derrota < naves_total estado_derrota
   \<and> naves_total estado_derrota sdiv 2 < naves_chegaram estado_derrota
   \<and> \<not> game_over estado_derrota
   \<and> thread_principal env0 (fst (thread_principal env0 PCheck estado_derrota)) estado_derrota
       = (PFinalizar, estado_derrota\<lparr>game_over := True\<rparr>, None)"
proof -
  have h: "0 \<le> naves_total estado_derrota"
    "naves_total estado_derrota < 2 * naves_chegaram estado_derrota" by code_simp+
  have v: "naves_total estado_derrota = 30" "naves_chegaram estado_derrota = 16"
    "naves_spawned estado_derrota < naves_total estado_derrota" "\<not> game_over estado_derrota"
    by code_simp+
  show ?thesis
    using v principal_derrota_imediata [OF h, of env0 env0 estado_derrota] by simp
qed

section \<open>The reloader (thread\_artilheiro)\<close>

lemma scan_lancador_vazio_Some:
  "scan_lancador_vazio g = Some i
   \<Longrightarrow> i < nat (num_lancadores g) \<and> \<not> tem_foguete (lancadores g ! i)
       \<and> (\<forall>k<i. tem_foguete (lancadores g ! k))"
  by (auto simp: scan_lancador_vazio_def find_Some_iff)

text \<open>
  C5. When the reloader's scan in state \<open>g\<close> finds the unloaded bay \<open>i\<close>, it goes to sleep
  holding no lock and changing nothing, with the aim direction of \<open>g\<close> captured. Whatever
  state \<open>g'\<close> it wakes up in, its next region loads bay \<open>i\<close> with the captured direction
  if the bay is still unloaded and the run has not terminated, and changes nothing
  otherwise.
\<close>

theorem artilheiro_recarga:
  assumes "scan_lancador_vazio g = Some i"
  shows "thread_artilheiro AScan g = (AReload i (direcao_atual g), g)
         \<and> \<not> tem_foguete (lancadores g ! i)
         \<and> thread_artilheiro (AReload i (direcao_atual g)) g'
             = (ATop,
                if \<not> tem_foguete (lancadores g' ! i) \<and> \<not> game_over g'
                then g'\<lparr>lancadores :=
                          (lancadores g')[i := (lancadores g' ! i)\<lparr>tem_foguete := True,
                                                                   direcao := direcao_atual g\<rparr>]\<rparr>
                else g')"
  using assms scan_lancador_vazio_Some [OF assms]
  by (simp add: artilheiro_recarrega_def)

theorem artilheiro_recarga_witness:
  "scan_lancador_vazio (game_init 0 0) = Some 0
   \<and> thread_artilheiro AScan (game_init 0 0) = (AReload 0 DIR_VERTICAL, game_init 0 0)
   \<and> tem_foguete (lancadores (snd (thread_artilheiro (AReload 0 DIR_VERTICAL)
        ((game_init 0 0)\<lparr>direcao_atual := DIR_DIAGONAL_ESQ\<rparr>))) ! 0)
   \<and> direcao (lancadores (snd (thread_artilheiro (AReload 0 DIR_VERTICAL)
        ((game_init 0 0)\<lparr>direcao_atual := DIR_DIAGONAL_ESQ\<rparr>))) ! 0) = DIR_VERTICAL
   \<and> snd (thread_artilheiro (AReload 0 DIR_VERTICAL) ((game_init 0 0)\<lparr>game_over := True\<rparr>))
       = (game_init 0 0)\<lparr>game_over := True\<rparr>
   \<and> snd (thread_artilheiro (AReload 0 DIR_VERTICAL) estado_carregado) = estado_carregado"
proof -
  have h: "scan_lancador_vazio (game_init 0 0) = Some 0" by code_simp
  have d: "direcao_atual (game_init 0 0) = DIR_VERTICAL" by code_simp
  have l: "\<not> tem_foguete (lancadores (game_init 0 0) ! 0)"
    "length (lancadores (game_init 0 0)) = 15"
    "tem_foguete (lancadores estado_carregado ! 0)" "\<not> game_over (game_init 0 0)"
    by code_simp+
  show ?thesis
    using h artilheiro_recarga [OF h, of "(game_init 0 0)\<lparr>direcao_atual := DIR_DIAGONAL_ESQ\<rparr>"]
      artilheiro_recarga [OF h, of "(game_init 0 0)\<lparr>game_over := True\<rparr>"]
      artilheiro_recarga [OF h, of estado_carregado]
    by (simp add: d l)
qed

section \<open>A rocket leaving the playfield (thread\_foguete)\<close>



section \<open>Counting lemmas\<close>

lemma ativas_update:
  "i < length ns \<Longrightarrow>
   int (ativas (ns[i := n]))
     = int (ativas ns) - (if nave_ativa (ns ! i) then 1 else 0) + (if nave_ativa n then 1 else 0)"
proof (induction ns arbitrary: i)
  case Nil
  then show ?case by simp
next
  case (Cons a ns)
  show ?case
  proof (cases i)
    case 0
    then show ?thesis by (simp add: ativas_def)
  next
    case (Suc k)
    with Cons.prems have "k < length ns" by simp
    from Cons.IH [OF this] Suc show ?thesis by (auto simp: ativas_def split: if_splits)
  qed
qed

lemma ativas_replicate_zero: "ativas (replicate n zero_nave) = 0"
  by (simp add: ativas_def zero_nave_def)

lemma npends_update:
  "k < length ts \<Longrightarrow>
   int (npends (ts[k := (i, pc)])) = int (npends ts) - int (npend (snd (ts ! k))) + int (npend pc)"
proof (induction ts arbitrary: k)
  case Nil
  then show ?case by simp
next
  case (Cons a ts)
  show ?case
  proof (cases k)
    case 0
    then show ?thesis by (simp add: npends_def)
  next
    case (Suc m)
    with Cons.prems have "m < length ts" by simp
    from Cons.IH [OF this] Suc show ?thesis by (simp add: npends_def)
  qed
qed

lemma fpends_update:
  "k < length ts \<Longrightarrow>
   int (fpends (ts[k := (j, pc)])) = int (fpends ts) - int (fpend (snd (ts ! k))) + int (fpend pc)"
proof (induction ts arbitrary: k)
  case Nil
  then show ?case by simp
next
  case (Cons a ts)
  show ?case
  proof (cases k)
    case 0
    then show ?thesis by (simp add: fpends_def)
  next
    case (Suc m)
    with Cons.prems have "m < length ts" by simp
    from Cons.IH [OF this] Suc show ?thesis by (simp add: fpends_def)
  qed
qed

lemma npends_novo: "npends (ts @ novo NTop t) = npends ts"
  by (cases t) (simp_all add: npends_def novo_def)

lemma fpends_novo: "fpends (ts @ novo FInit t) = fpends ts"
  by (cases t) (simp_all add: fpends_def novo_def)

lemma scan_nave_livre_Some:
  "scan_nave_livre g = Some idx \<Longrightarrow> idx < MAX_NAVES \<and> \<not> nave_ativa (naves g ! idx)"
  by (auto simp: scan_nave_livre_def find_Some_iff)

lemma foguete_scan_naves_Some:
  assumes "foguete_scan_naves fx fy g = (Some i, g1)"
  shows "i < MAX_NAVES \<and> nave_ativa (naves g ! i)
         \<and> na_caixa (nave_x (naves g ! i)) (nave_y (naves g ! i)) fx fy
         \<and> g1 = g\<lparr>naves := (naves g)[i := (naves g ! i)\<lparr>nave_ativa := False,
                                                         nave_destruida := True\<rparr>]\<rparr>"
  using assms by (auto simp: foguete_scan_naves_def find_Some_iff split: option.splits)

lemma foguete_scan_naves_None:
  assumes "foguete_scan_naves fx fy g = (None, g1)"
  shows "g1 = g"
  using assms by (auto simp: foguete_scan_naves_def split: option.splits)

section \<open>What each task's step does to the counts\<close>

lemma thread_nave_contagem:
  assumes st: "thread_nave i pc g = (pc1, g1)" and i: "i < length (naves g)"
  shows "length (naves g1) = length (naves g)
         \<and> naves_spawned g1 = naves_spawned g \<and> naves_total g1 = naves_total g
         \<and> naves_destruidas g1 + naves_chegaram g1 + int (ativas (naves g1)) + int (npend pc1)
             = naves_destruidas g + naves_chegaram g + int (ativas (naves g)) + int (npend pc)"
proof (cases pc)
  case NGroundGate
  with st i show ?thesis
    by (auto simp: nave_gate_ground_def ativas_update split: if_splits)
next
  case (NKillGate nx ny)
  with st i show ?thesis
    by (auto simp: nave_gate_kill_def ativas_update split: if_splits)
next
  case (NGroundScore first)
  with st show ?thesis by (auto simp: score_ground_def)
next
  case (NKillScore first nx ny)
  with st show ?thesis by (auto simp: score_kill_def Let_def)
next
  case (NScan nx ny)
  with st show ?thesis
    by (auto simp: nave_scan_foguetes_def split: option.splits if_splits)
next
  case NMove
  with st i show ?thesis by (auto simp: ativas_update Let_def split: if_splits)
qed (use st in \<open>auto split: if_splits\<close>)

lemma thread_foguete_contagem:
  assumes st: "thread_foguete j pc g = (pc1, g1)" and len: "length (naves g) = MAX_NAVES"
  shows "length (naves g1) = length (naves g)
         \<and> naves_spawned g1 = naves_spawned g \<and> naves_total g1 = naves_total g
         \<and> naves_destruidas g1 + naves_chegaram g1 + int (ativas (naves g1)) + int (fpend pc1)
             = naves_destruidas g + naves_chegaram g + int (ativas (naves g)) + int (fpend pc)"
proof (cases pc)
  case (FScan fx fy)
  show ?thesis
  proof (cases "fst (foguete_scan_naves fx fy g)")
    case None
    then obtain g2 where r: "foguete_scan_naves fx fy g = (None, g2)"
      by (cases "foguete_scan_naves fx fy g") auto
    from foguete_scan_naves_None [OF r] r st FScan show ?thesis by auto
  next
    case (Some i)
    then obtain g2 where r: "foguete_scan_naves fx fy g = (Some i, g2)"
      by (cases "foguete_scan_naves fx fy g") auto
    from foguete_scan_naves_Some [OF r] len
    have "i < length (naves g)" and "nave_ativa (naves g ! i)"
      and "g2 = g\<lparr>naves := (naves g)[i := (naves g ! i)\<lparr>nave_ativa := False,
                                                      nave_destruida := True\<rparr>]\<rparr>"
      by simp_all
    with r st FScan show ?thesis by (auto simp: ativas_update)
  qed
next
  case (FScore first)
  with st show ?thesis by (auto simp: score_kill_def Let_def)
next
  case FInit
  with st show ?thesis by (auto split: prod.splits)
next
  case FMove
  with st show ?thesis by (auto simp: Let_def split: if_splits)
next
  case (FBounds sw sh hud c)
  with st show ?thesis by (auto simp: Let_def split: if_splits)
qed (use st in \<open>auto split: if_splits\<close>)

lemma disparar_secao_frame:
  assumes "disparar_secao g = (r, g1)"
  shows "naves g1 = naves g \<and> naves_spawned g1 = naves_spawned g \<and> naves_total g1 = naves_total g
         \<and> naves_destruidas g1 = naves_destruidas g \<and> naves_chegaram g1 = naves_chegaram g
         \<and> game_over g1 = game_over g"
  using assms by (auto simp: disparar_secao_def Let_def split: option.splits)

lemma process_input_tecla_frame:
  "naves (process_input_tecla key g) = naves g
   \<and> naves_spawned (process_input_tecla key g) = naves_spawned g
   \<and> naves_total (process_input_tecla key g) = naves_total g
   \<and> naves_destruidas (process_input_tecla key g) = naves_destruidas g
   \<and> naves_chegaram (process_input_tecla key g) = naves_chegaram g
   \<and> (game_over g \<longrightarrow> game_over (process_input_tecla key g))"
  by (simp add: process_input_tecla_def Let_def)

lemma thread_input_frame:
  assumes "thread_input e pc g = (pc1, g1, t)"
  shows "naves g1 = naves g \<and> naves_spawned g1 = naves_spawned g \<and> naves_total g1 = naves_total g
         \<and> naves_destruidas g1 = naves_destruidas g \<and> naves_chegaram g1 = naves_chegaram g
         \<and> (game_over g \<longrightarrow> game_over g1)"
proof (cases pc)
  case IKey
  show ?thesis
  proof (cases "env_key e \<noteq> ERR \<and> env_key e = ch CHR '' ''")
    case True
    obtain r g2 where d: "disparar_secao g = (r, g2)" by (cases "disparar_secao g") auto
    from assms IKey True d have "g1 = g2" by (cases r) auto
    with disparar_secao_frame [OF d] show ?thesis by simp
  next
    case False
    with assms IKey have "g1 = g \<or> g1 = process_input_tecla (env_key e) g"
      by (auto split: if_splits)
    with process_input_tecla_frame [of "env_key e" g] show ?thesis by auto
  qed
qed (use assms in \<open>auto simp: disparar_rollback_def split: if_splits\<close>)

lemma thread_artilheiro_frame:
  assumes "thread_artilheiro pc g = (pc1, g1)"
  shows "naves g1 = naves g \<and> naves_spawned g1 = naves_spawned g \<and> naves_total g1 = naves_total g
         \<and> naves_destruidas g1 = naves_destruidas g \<and> naves_chegaram g1 = naves_chegaram g
         \<and> game_over g1 = game_over g"
  using assms
  by (cases pc) (auto simp: artilheiro_recarrega_def split: if_splits option.splits)

lemma thread_principal_contagem:
  assumes st: "thread_principal e pc g = (pc1, g1, t)"
      and len: "length (naves g) = MAX_NAVES"
      and ok: "ppc_idx_ok pc"
      and res: "naves_spawned g + int (reserva pc) \<le> naves_total g"
  shows "length (naves g1) = MAX_NAVES \<and> ppc_idx_ok pc1
         \<and> (\<forall>idx. t = Some idx \<longrightarrow> idx < MAX_NAVES)
         \<and> naves_spawned g1 + int (reserva pc1) \<le> naves_total g1
         \<and> naves_destruidas g1 + naves_chegaram g1 + int (ativas (naves g1))
             + naves_spawned g + int (janela pc)
             \<le> naves_destruidas g + naves_chegaram g + int (ativas (naves g))
                + naves_spawned g1 + int (janela pc1)"
proof (cases pc)
  case PSpawnSlot
  show ?thesis
  proof (cases "int MAX_NAVES \<le> num_naves_ativas g \<or> scan_nave_livre g = None")
    case True
    with st PSpawnSlot have "g1 = g" "pc1 = PRender" "t = None"
      by (auto simp: criar_nave_slot_def split: if_splits)
    with len res PSpawnSlot show ?thesis by simp
  next
    case False
    then obtain idx where s: "scan_nave_livre g = Some idx" by auto
    from scan_nave_livre_Some [OF s] len
    have i: "idx < MAX_NAVES" "idx < length (naves g)" "\<not> nave_ativa (naves g ! idx)"
      by simp_all
    from st PSpawnSlot False s have r: "pc1 = PSpawnConta idx" "t = None"
      "naves g1 = (naves g)[idx := (naves g ! idx)\<lparr>nave_id := int idx,
          nave_x := (if 0 < screen_width g then int (env_rand e) mod screen_width g else 0),
          nave_y := hud_height g, nave_ativa := True, nave_destruida := False\<rparr>]"
      "naves_spawned g1 = naves_spawned g" "naves_total g1 = naves_total g"
      "naves_destruidas g1 = naves_destruidas g" "naves_chegaram g1 = naves_chegaram g"
      by (auto simp: criar_nave_slot_def Let_def)
    from r i len res PSpawnSlot show ?thesis by (simp add: ativas_update)
  qed
next
  case (PSpawnRollback idx)
  with ok have "idx < length (naves g)" using len by simp
  with st PSpawnRollback len res show ?thesis
    by (auto simp: criar_nave_rollback_def ativas_update)
next
  case (PSpawnConta idx)
  with st len ok res show ?thesis by (auto simp: criar_nave_conta_def)
next
  case (PSpawnLaunch idx)
  with st len ok res show ?thesis by (auto split: if_splits)
next
  case PCheck
  with st len res show ?thesis by (auto simp: Let_def)
next
  case (PDecide lose_now all_handled spawned tot)
  with st len res show ?thesis by (auto split: if_splits)
next
  case (PResize sw sh)
  with st len res show ?thesis by (auto simp: render_resize_def Let_def)
qed (use st len res in \<open>auto split: if_splits\<close>)

section \<open>The counting invariant holds in every run\<close>

lemma inv_contagem_exec:
  assumes inv: "inv_contagem c"
  shows "inv_contagem (exec a c)"
proof (cases a)
  case (Principal e)
  obtain pc1 g1 t where st: "thread_principal e (principal c) (gs c) = (pc1, g1, t)"
    using prod_cases3 by blast
  from inv have len: "length (naves (gs c)) = MAX_NAVES" and ok: "ppc_idx_ok (principal c)"
    and res: "naves_spawned (gs c) + int (reserva (principal c)) \<le> naves_total (gs c)"
    by (simp_all add: inv_contagem_def)
  note p = thread_principal_contagem [OF st len ok res]
  have thr: "\<forall>x \<in> set (nave_threads c @ novo NTop t). fst x < MAX_NAVES"
    using inv p by (cases t) (auto simp: inv_contagem_def novo_def)
  from inv p thr show ?thesis
    unfolding Principal inv_contagem_def by (simp add: st npends_novo)
next
  case (Input e)
  obtain pc1 g1 t where st: "thread_input e (input c) (gs c) = (pc1, g1, t)"
    using prod_cases3 by blast
  from inv thread_input_frame [OF st] show ?thesis
    unfolding Input inv_contagem_def by (simp add: st fpends_novo)
next
  case Artilheiro
  obtain pc1 g1 where st: "thread_artilheiro (artilheiro c) (gs c) = (pc1, g1)"
    by (cases "thread_artilheiro (artilheiro c) (gs c)") auto
  from inv thread_artilheiro_frame [OF st] show ?thesis
    unfolding Artilheiro inv_contagem_def by (simp add: st)
next
  case (NaveT k)
  show ?thesis
  proof (cases "k < length (nave_threads c)")
    case False
    with inv show ?thesis by (simp add: NaveT)
  next
    case True
    obtain i pc where t: "nave_threads c ! k = (i, pc)" by (cases "nave_threads c ! k") auto
    obtain pc1 g1 where st: "thread_nave i pc (gs c) = (pc1, g1)"
      by (cases "thread_nave i pc (gs c)") auto
    from True t have "(i, pc) \<in> set (nave_threads c)" by (metis nth_mem)
    with inv have i: "i < length (naves (gs c))" by (auto simp: inv_contagem_def)
    note n = thread_nave_contagem [OF st i]
    have thr: "\<forall>x \<in> set ((nave_threads c)[k := (i, pc1)]). fst x < MAX_NAVES"
      using inv i by (auto simp: inv_contagem_def dest!: set_update_subset_insert [THEN subsetD])
    from inv n thr True t show ?thesis
      unfolding NaveT inv_contagem_def by (simp add: st npends_update)
  qed
next
  case (FogueteT k)
  show ?thesis
  proof (cases "k < length (foguete_threads c)")
    case False
    with inv show ?thesis by (simp add: FogueteT)
  next
    case True
    obtain j pc where t: "foguete_threads c ! k = (j, pc)"
      by (cases "foguete_threads c ! k") auto
    obtain pc1 g1 where st: "thread_foguete j pc (gs c) = (pc1, g1)"
      by (cases "thread_foguete j pc (gs c)") auto
    from inv have len: "length (naves (gs c)) = MAX_NAVES" by (simp add: inv_contagem_def)
    note f = thread_foguete_contagem [OF st len]
    from inv f True t show ?thesis
      unfolding FogueteT inv_contagem_def by (simp add: st fpends_update)
  qed
qed

lemma inv_contagem_run: "inv_contagem c \<Longrightarrow> inv_contagem (run sched c)"
  unfolding run_def by (induction sched arbitrary: c) (simp_all add: inv_contagem_exec)

lemma ships_total_DIFFS:
  assumes "0 \<le> dif" "dif \<le> 2"
  shows "0 \<le> ships_total (DIFFS ! nat dif)"
proof -
  from assms have "dif = 0 \<or> dif = 1 \<or> dif = 2" by arith
  then show ?thesis by (auto simp: DIFFS_def mk_cfg_def)
qed

lemma inv_contagem_inicial: "inv_contagem (config_inicial now d)"
proof -
  let ?dif = "if d < 0 \<or> 2 < d then 1 else d"
  have "0 \<le> ships_total (DIFFS ! nat ?dif)" by (rule ships_total_DIFFS) auto
  then show ?thesis
    by (simp add: inv_contagem_def config_inicial_def game_init_def Let_def
        ativas_replicate_zero npends_def fpends_def)
qed

text \<open>
  C3. In every configuration that any interleaving of the tasks reaches from the initial
  one, \<^verbatim>\<open>naves_destruidas + naves_chegaram \<le> naves_total\<close> and
  \<^verbatim>\<open>naves_spawned \<le> naves_total\<close>.
\<close>

theorem contagem_limitada:
  "naves_destruidas (gs (run sched (config_inicial now d)))
     + naves_chegaram (gs (run sched (config_inicial now d)))
     \<le> naves_total (gs (run sched (config_inicial now d)))
   \<and> naves_spawned (gs (run sched (config_inicial now d)))
     \<le> naves_total (gs (run sched (config_inicial now d)))"
proof -
  let ?c = "run sched (config_inicial now d)"
  have i: "inv_contagem ?c" by (rule inv_contagem_run [OF inv_contagem_inicial])
  have "int (janela (principal ?c)) \<le> int (reserva (principal ?c))"
    by (cases "principal ?c") simp_all
  with i show ?thesis unfolding inv_contagem_def by linarith
qed

theorem contagem_limitada_witness:
  "naves_spawned (gs (run (replicate 7 (Principal env0) @ [NaveT 0, NaveT 0])
                       (config_inicial 0 0))) = 1
   \<and> nave_threads (run (replicate 7 (Principal env0) @ [NaveT 0, NaveT 0])
                     (config_inicial 0 0)) = [(0, NMetrics 7 4)]
   \<and> naves_destruidas (gs (run (replicate 7 (Principal env0) @ [NaveT 0, NaveT 0])
                             (config_inicial 0 0)))
       + naves_chegaram (gs (run (replicate 7 (Principal env0) @ [NaveT 0, NaveT 0])
                               (config_inicial 0 0)))
       \<le> naves_total (gs (run (replicate 7 (Principal env0) @ [NaveT 0, NaveT 0])
                             (config_inicial 0 0)))
   \<and> naves_total (gs (run (replicate 7 (Principal env0) @ [NaveT 0, NaveT 0])
                        (config_inicial 0 0))) = 30"
proof -
  have a: "naves_spawned (gs (run (replicate 7 (Principal env0) @ [NaveT 0, NaveT 0])
                       (config_inicial 0 0))) = 1" by code_simp
  have b: "nave_threads (run (replicate 7 (Principal env0) @ [NaveT 0, NaveT 0])
                     (config_inicial 0 0)) = [(0, NMetrics 7 4)]" by code_simp
  have c: "naves_total (gs (run (replicate 7 (Principal env0) @ [NaveT 0, NaveT 0])
                        (config_inicial 0 0))) = 30" by code_simp
  show ?thesis
    using a b c
      contagem_limitada [of "replicate 7 (Principal env0) @ [NaveT 0, NaveT 0]" 0 0]
    by simp
qed

section \<open>The termination flag\<close>

lemma thread_nave_placar:
  assumes "thread_nave i pc g = (pc1, g1)"
  shows "naves_destruidas g \<le> naves_destruidas g1 \<and> naves_chegaram g \<le> naves_chegaram g1
         \<and> pontuacao g1 = pontuacao g + 10 * (naves_destruidas g1 - naves_destruidas g)
         \<and> shots_hit g1 = shots_hit g + (naves_destruidas g1 - naves_destruidas g)
         \<and> game_over g1 = game_over g"
  using assms
  by (cases pc)
     (auto simp: nave_gate_ground_def nave_gate_kill_def score_ground_def score_kill_def
        nave_scan_foguetes_def Let_def split: if_splits option.splits)

lemma thread_foguete_placar:
  assumes "thread_foguete j pc g = (pc1, g1)"
  shows "naves_destruidas g \<le> naves_destruidas g1 \<and> naves_chegaram g \<le> naves_chegaram g1
         \<and> pontuacao g1 = pontuacao g + 10 * (naves_destruidas g1 - naves_destruidas g)
         \<and> shots_hit g1 = shots_hit g + (naves_destruidas g1 - naves_destruidas g)
         \<and> game_over g1 = game_over g"
  using assms
  by (cases pc)
     (auto simp: foguete_scan_naves_def score_kill_def Let_def
        split: if_splits option.splits prod.splits)

lemma thread_principal_game_over:
  assumes "thread_principal e pc g = (pc1, g1, t)" and "game_over g"
  shows "game_over g1"
  using assms
  by (cases pc)
     (auto simp: criar_nave_slot_def criar_nave_conta_def criar_nave_rollback_def
        render_resize_def Let_def split: if_splits option.splits)

lemma exec_game_over:
  assumes "game_over (gs c)"
  shows "game_over (gs (exec a c))"
proof (cases a)
  case (Principal e)
  obtain pc1 g1 t where st: "thread_principal e (principal c) (gs c) = (pc1, g1, t)"
    using prod_cases3 by blast
  from thread_principal_game_over [OF st assms] show ?thesis by (simp add: Principal st)
next
  case (Input e)
  obtain pc1 g1 t where st: "thread_input e (input c) (gs c) = (pc1, g1, t)"
    using prod_cases3 by blast
  from thread_input_frame [OF st] assms show ?thesis by (simp add: Input st)
next
  case Artilheiro
  obtain pc1 g1 where st: "thread_artilheiro (artilheiro c) (gs c) = (pc1, g1)"
    by (cases "thread_artilheiro (artilheiro c) (gs c)") auto
  from thread_artilheiro_frame [OF st] assms show ?thesis by (simp add: Artilheiro st)
next
  case (NaveT k)
  show ?thesis
  proof (cases "k < length (nave_threads c)")
    case False
    with assms show ?thesis by (simp add: NaveT)
  next
    case True
    obtain i pc where t: "nave_threads c ! k = (i, pc)" by (cases "nave_threads c ! k") auto
    obtain pc1 g1 where st: "thread_nave i pc (gs c) = (pc1, g1)"
      by (cases "thread_nave i pc (gs c)") auto
    from thread_nave_placar [OF st] assms True t show ?thesis by (simp add: NaveT st)
  qed
next
  case (FogueteT k)
  show ?thesis
  proof (cases "k < length (foguete_threads c)")
    case False
    with assms show ?thesis by (simp add: FogueteT)
  next
    case True
    obtain j pc where t: "foguete_threads c ! k = (j, pc)"
      by (cases "foguete_threads c ! k") auto
    obtain pc1 g1 where st: "thread_foguete j pc (gs c) = (pc1, g1)"
      by (cases "thread_foguete j pc (gs c)") auto
    from thread_foguete_placar [OF st] assms True t show ?thesis by (simp add: FogueteT st)
  qed
qed

lemma process_input_game_over:
  assumes "game_over g"
  shows "game_over (fst (process_input key m c g))"
proof (cases "key = ch CHR '' ''")
  case True
  obtain r g2 where d: "disparar_secao g = (r, g2)" by (cases "disparar_secao g") auto
  from disparar_secao_frame [OF d] assms have "game_over g2" by simp
  with True d show ?thesis
    by (cases r) (auto simp: process_input_def tentar_disparar_def disparar_rollback_def)
next
  case False
  with assms process_input_tecla_frame [of key g] show ?thesis
    by (simp add: process_input_def)
qed

text \<open>
  C8. Once \<^verbatim>\<open>game_over\<close> is true it stays true through every run of the system: no step
  of the orchestrating loop (with \<^verbatim>\<open>criar_nave\<close>, the renderer's resize and
  \<^verbatim>\<open>finalizar_threads\<close>), of the input task, of the reloader or of any ship or rocket
  task, in any interleaving, makes it false again; nor does \<^verbatim>\<open>process_input\<close> run on its
  own.
\<close>

theorem game_over_permanente:
  assumes "game_over (gs c)"
  shows "game_over (gs (run sched c))
         \<and> game_over (fst (process_input key malloc_ok create_ok (gs c)))"
proof -
  have "game_over (gs c) \<Longrightarrow> game_over (gs (fold exec sched c))" for c
    by (induction sched arbitrary: c) (simp_all add: exec_game_over)
  with assms process_input_game_over [OF assms] show ?thesis by (simp add: run_def)
qed

theorem game_over_permanente_witness:
  "game_over (gs config_terminado)
   \<and> game_over (gs (run [Principal env0, Input env0, Artilheiro, Principal env0,
                          Principal (env0\<lparr>env_due := False\<rparr>)] config_terminado))
   \<and> principal (run [Principal env0, Input env0, Artilheiro, Principal env0,
                      Principal (env0\<lparr>env_due := False\<rparr>)] config_terminado) = PDone
   \<and> game_over (fst (process_input (ch CHR ''a'') True True (gs config_terminado)))"
proof -
  have h: "game_over (gs config_terminado)" by code_simp
  have p: "principal (run [Principal env0, Input env0, Artilheiro, Principal env0,
                      Principal (env0\<lparr>env_due := False\<rparr>)] config_terminado) = PDone"
    by code_simp
  show ?thesis
    using h p game_over_permanente [OF h] by simp
qed

section \<open>The transition gate\<close>

lemma ativas_update_le:
  assumes "i < length ns" and "nave_ativa n \<longrightarrow> nave_ativa (ns ! i)"
  shows "ativas (ns[i := n]) \<le> ativas ns"
  using ativas_update [OF assms(1), of n] assms(2) by (auto split: if_splits)

lemma thread_nave_ativas:
  assumes st: "thread_nave i pc g = (pc1, g1)" and i: "i < length (naves g)"
  shows "ativas (naves g1) \<le> ativas (naves g)"
  using st i
  by (cases pc)
     (auto simp: nave_gate_ground_def nave_gate_kill_def score_ground_def score_kill_def
        nave_scan_foguetes_def ativas_update_le Let_def split: if_splits option.splits)

lemma thread_foguete_ativas:
  assumes st: "thread_foguete j pc g = (pc1, g1)" and len: "length (naves g) = MAX_NAVES"
  shows "ativas (naves g1) \<le> ativas (naves g)"
proof (cases pc)
  case (FScan fx fy)
  show ?thesis
  proof (cases "fst (foguete_scan_naves fx fy g)")
    case None
    then obtain g2 where r: "foguete_scan_naves fx fy g = (None, g2)"
      by (cases "foguete_scan_naves fx fy g") auto
    from foguete_scan_naves_None [OF r] r st FScan show ?thesis by auto
  next
    case (Some i)
    then obtain g2 where r: "foguete_scan_naves fx fy g = (Some i, g2)"
      by (cases "foguete_scan_naves fx fy g") auto
    from foguete_scan_naves_Some [OF r] len
    have "i < length (naves g)" and "nave_ativa (naves g ! i)"
      and "g2 = g\<lparr>naves := (naves g)[i := (naves g ! i)\<lparr>nave_ativa := False,
                                                      nave_destruida := True\<rparr>]\<rparr>"
      by simp_all
    then have "int (ativas (naves g2)) \<le> int (ativas (naves g))"
      by (simp add: ativas_update)
    with r st FScan show ?thesis by auto
  qed
qed (use st in \<open>auto simp: score_kill_def Let_def split: if_splits prod.splits\<close>)

lemma ativas_zero:
  assumes "ativas ns = 0" and "k < length ns"
  shows "\<not> nave_ativa (ns ! k)"
proof -
  from assms(1) have "filter nave_ativa ns = []" by (simp add: ativas_def)
  then have "\<forall>n \<in> set ns. \<not> nave_ativa n" by (simp add: filter_empty_conv)
  with assms(2) show ?thesis by simp
qed

lemma npends_portao:
  "list_all (\<lambda>t. fst t = i \<and> no_portao (snd t)) ts \<Longrightarrow> npends ts = 0"
proof (induction ts)
  case Nil
  then show ?case by (simp add: npends_def)
next
  case (Cons a ts)
  then have "no_portao (snd a)" and "npends ts = 0" by simp_all
  then show ?case by (cases "snd a") (simp_all add: npends_def)
qed

lemma fpends_mira:
  "list_all (\<lambda>t. na_mira sx sy (snd t)) ts \<Longrightarrow> fpends ts = 0"
proof (induction ts)
  case Nil
  then show ?case by (simp add: fpends_def)
next
  case (Cons a ts)
  then have "na_mira sx sy (snd a)" and "fpends ts = 0" by simp_all
  then show ?case by (cases "snd a") (simp_all add: fpends_def)
qed

lemma inv_corrida_inicial:
  assumes "length (naves (gs c)) = MAX_NAVES"
      and "list_all (\<lambda>t. fst t < MAX_NAVES) (nave_threads c)"
  shows "inv_corrida (saldo c) (naves_destruidas (gs c)) (naves_chegaram (gs c))
           (pontuacao (gs c)) (shots_hit (gs c)) c"
  using assms by (simp add: inv_corrida_def saldo_def)

lemma corrida_saldo:
  assumes "corrida i c"
  shows "length (naves (gs c)) = MAX_NAVES
         \<and> list_all (\<lambda>t. fst t < MAX_NAVES) (nave_threads c)
         \<and> saldo c = naves_destruidas (gs c) + naves_chegaram (gs c) + 1"
proof -
  from assms have n: "npends (nave_threads c) = 0"
    unfolding corrida_def by (blast intro: npends_portao)
  from assms have f: "fpends (foguete_threads c) = 0"
    unfolding corrida_def by (blast intro: fpends_mira)
  from assms have t: "list_all (\<lambda>t. fst t < MAX_NAVES) (nave_threads c)"
    unfolding corrida_def by (auto simp: list_all_iff)
  from assms n f t show ?thesis by (simp add: saldo_def corrida_def)
qed

lemma inv_corrida_exec:
  assumes inv: "inv_corrida q0 d0 r0 p0 h0 c" and ent: "entidade a"
  shows "inv_corrida q0 d0 r0 p0 h0 (exec a c)
         \<and> ativas (naves (gs (exec a c))) \<le> ativas (naves (gs c))"
proof (cases a)
  case (NaveT k)
  show ?thesis
  proof (cases "k < length (nave_threads c)")
    case False
    with inv show ?thesis by (simp add: NaveT)
  next
    case True
    obtain i pc where t: "nave_threads c ! k = (i, pc)" by (cases "nave_threads c ! k") auto
    obtain pc1 g1 where st: "thread_nave i pc (gs c) = (pc1, g1)"
      by (cases "thread_nave i pc (gs c)") auto
    from True t have "(i, pc) \<in> set (nave_threads c)" by (metis nth_mem)
    with inv have i: "i < length (naves (gs c))" "i < MAX_NAVES"
      by (auto simp: inv_corrida_def list_all_iff)
    note n = thread_nave_contagem [OF st i(1)] thread_nave_placar [OF st]
      thread_nave_ativas [OF st i(1)]
    have thr: "list_all (\<lambda>t. fst t < MAX_NAVES) ((nave_threads c)[k := (i, pc1)])"
      using inv i
      by (auto simp: inv_corrida_def list_all_iff dest!: set_update_subset_insert [THEN subsetD])
    from inv n thr True t show ?thesis
      unfolding NaveT inv_corrida_def by (simp add: st npends_update)
  qed
next
  case (FogueteT k)
  show ?thesis
  proof (cases "k < length (foguete_threads c)")
    case False
    with inv show ?thesis by (simp add: FogueteT)
  next
    case True
    obtain j pc where t: "foguete_threads c ! k = (j, pc)"
      by (cases "foguete_threads c ! k") auto
    obtain pc1 g1 where st: "thread_foguete j pc (gs c) = (pc1, g1)"
      by (cases "thread_foguete j pc (gs c)") auto
    from inv have len: "length (naves (gs c)) = MAX_NAVES" by (simp add: inv_corrida_def)
    note f = thread_foguete_contagem [OF st len] thread_foguete_placar [OF st]
      thread_foguete_ativas [OF st len]
    from inv f True t show ?thesis
      unfolding FogueteT inv_corrida_def by (simp add: st fpends_update)
  qed
qed (use ent in simp_all)

lemma inv_corrida_run:
  assumes "inv_corrida q0 d0 r0 p0 h0 c" and "list_all entidade sched"
  shows "inv_corrida q0 d0 r0 p0 h0 (run sched c)
         \<and> ativas (naves (gs (run sched c))) \<le> ativas (naves (gs c))"
  using assms unfolding run_def
proof (induction sched arbitrary: c)
  case Nil
  then show ?case by simp
next
  case (Cons a sched)
  from Cons.prems have e: "entidade a" and r: "list_all entidade sched" by simp_all
  note s = inv_corrida_exec [OF Cons.prems(1) e]
  from Cons.IH [OF conjunct1 [OF s] r] s show ?case by simp
qed

lemma corrida_primeiro_passo:
  assumes cor: "corrida i c" and ef: "efetiva c a"
  shows "ativas (naves (gs (exec a c))) = 0"
proof (cases a)
  case (NaveT k)
  with ef have k: "k < length (nave_threads c)" by simp
  obtain i' pc where t: "nave_threads c ! k = (i', pc)" by (cases "nave_threads c ! k") auto
  from k t have "(i', pc) \<in> set (nave_threads c)" by (metis nth_mem)
  with cor have i': "i' = i" and pc: "no_portao pc" by (auto simp: corrida_def list_all_iff)
  from cor have i: "i < length (naves (gs c))" "nave_ativa (naves (gs c) ! i)"
    "ativas (naves (gs c)) = 1" by (simp_all add: corrida_def)
  have "int (ativas (naves (gs (exec a c)))) = 0"
    using pc i k t i'
    by (cases pc)
       (simp_all add: NaveT nave_gate_ground_def nave_gate_kill_def ativas_update)
  then show ?thesis by simp
next
  case (FogueteT k)
  with ef have k: "k < length (foguete_threads c)" by simp
  obtain j pc where t: "foguete_threads c ! k = (j, pc)"
    by (cases "foguete_threads c ! k") auto
  from k t have "(j, pc) \<in> set (foguete_threads c)" by (metis nth_mem)
  with cor have m: "na_mira (nave_x (naves (gs c) ! i)) (nave_y (naves (gs c) ! i)) pc"
    by (auto simp: corrida_def list_all_iff)
  then obtain fx fy where pc: "pc = FScan fx fy"
    and box: "na_caixa (nave_x (naves (gs c) ! i)) (nave_y (naves (gs c) ! i)) fx fy"
    by (cases pc) simp_all
  from cor have i: "i < MAX_NAVES" "nave_ativa (naves (gs c) ! i)"
    "ativas (naves (gs c)) = 1" "length (naves (gs c)) = MAX_NAVES"
    by (simp_all add: corrida_def)
  have "fst (foguete_scan_naves fx fy (gs c)) \<noteq> None"
    using i box by (auto simp: foguete_scan_naves_def find_None_iff split: option.splits)
  then obtain h g2 where r: "foguete_scan_naves fx fy (gs c) = (Some h, g2)"
    by (cases "foguete_scan_naves fx fy (gs c)") auto
  from foguete_scan_naves_Some [OF r] i
  have "int (ativas (naves g2)) = 0" by (simp add: ativas_update)
  with r k t pc show ?thesis by (simp add: FogueteT)
qed (use ef in simp_all)

lemma exec_nao_efetiva:
  assumes "entidade a" and "\<not> efetiva c a"
  shows "exec a c = c"
  using assms by (cases a) simp_all

lemma corrida_vira:
  assumes "corrida i c" and "list_all entidade sched" and "list_ex (efetiva c) sched"
  shows "ativas (naves (gs (run sched c))) = 0"
  using assms
proof (induction sched)
  case Nil
  then show ?case by simp
next
  case (Cons a sched)
  from Cons.prems have e: "entidade a" and r: "list_all entidade sched" by simp_all
  show ?case
  proof (cases "efetiva c a")
    case True
    from corrida_primeiro_passo [OF Cons.prems(1) True]
    have z: "ativas (naves (gs (exec a c))) = 0" .
    from corrida_saldo [OF Cons.prems(1)]
    have l: "length (naves (gs c)) = MAX_NAVES"
      and th: "list_all (\<lambda>t. fst t < MAX_NAVES) (nave_threads c)" by simp_all
    from inv_corrida_exec [OF inv_corrida_inicial [OF l th] e]
    have "inv_corrida (saldo c) (naves_destruidas (gs c)) (naves_chegaram (gs c))
            (pontuacao (gs c)) (shots_hit (gs c)) (exec a c)" by simp
    from inv_corrida_run [OF this r] z show ?thesis by (simp add: run_def)
  next
    case False
    with Cons.prems have "list_ex (efetiva c) sched" by simp
    from Cons.IH [OF Cons.prems(1) r this] exec_nao_efetiva [OF e False]
    show ?thesis by (simp add: run_def)
  qed
qed

lemma portoes:
  "fst (nave_gate_ground k g) = nave_ativa (naves g ! k)
   \<and> fst (nave_gate_kill k g) = nave_ativa (naves g ! k)
   \<and> (k < length (naves g) \<longrightarrow>
        \<not> nave_ativa (naves (snd (nave_gate_ground k g)) ! k)
        \<and> \<not> nave_ativa (naves (snd (nave_gate_kill k g)) ! k))
   \<and> (\<not> nave_ativa (naves g ! k) \<longrightarrow>
        snd (nave_gate_ground k g) = g \<and> snd (nave_gate_kill k g) = g)"
  by (simp add: nave_gate_ground_def nave_gate_kill_def)

lemma portao_foguete:
  assumes "fst (foguete_scan_naves fx fy g) = Some k" and "length (naves g) = MAX_NAVES"
  shows "nave_ativa (naves g ! k) \<and> \<not> nave_ativa (naves (snd (foguete_scan_naves fx fy g)) ! k)"
proof -
  from assms(1) obtain g2 where r: "foguete_scan_naves fx fy g = (Some k, g2)"
    by (cases "foguete_scan_naves fx fy g") auto
  from foguete_scan_naves_Some [OF r] assms(2) r show ?thesis by simp
qed

lemma so_pontua_quem_virou_nave:
  "(placar (snd (thread_nave k pc g)) \<noteq> placar g \<longrightarrow>
      pc = NGroundScore True \<or> (\<exists>nx ny. pc = NKillScore True nx ny))
   \<and> (fst (thread_nave k pc g) = NGroundScore True \<longrightarrow>
        pc = NGroundGate \<and> nave_ativa (naves g ! k))
   \<and> (fst (thread_nave k pc g) = NKillScore True nx ny \<longrightarrow>
        pc = NKillGate nx ny \<and> nave_ativa (naves g ! k))"
  by (cases pc)
     (auto simp: placar_def nave_gate_ground_def nave_gate_kill_def score_ground_def
        score_kill_def nave_scan_foguetes_def Let_def split: if_splits option.splits)

lemma so_pontua_quem_virou_foguete:
  "(placar (snd (thread_foguete j pc g)) \<noteq> placar g \<longrightarrow> pc = FScore True)
   \<and> (fst (thread_foguete j pc g) = FScore True \<longrightarrow> (\<exists>h. pc = FExplode True h))
   \<and> (fst (thread_foguete j pc g) = FExplode True h \<longrightarrow> pc = FMark True h)
   \<and> (fst (thread_foguete j pc g) = FMark True h \<longrightarrow>
        (\<exists>fx fy. pc = FScan fx fy \<and> fst (foguete_scan_naves fx fy g) = Some h))"
  by (cases pc)
     (auto simp: placar_def score_kill_def foguete_scan_naves_def Let_def
        split: if_splits option.splits prod.splits)

lemma entidades_conservam:
  assumes len: "length (naves (gs c)) = MAX_NAVES"
      and thr: "list_all (\<lambda>t. fst t < MAX_NAVES) (nave_threads c)"
      and ent: "list_all entidade sched"
  shows "saldo (run sched c) = saldo c
         \<and> naves_destruidas (gs c) \<le> naves_destruidas (gs (run sched c))
         \<and> naves_chegaram (gs c) \<le> naves_chegaram (gs (run sched c))
         \<and> ativas (naves (gs (run sched c))) \<le> ativas (naves (gs c))
         \<and> pontuacao (gs (run sched c))
             = pontuacao (gs c)
               + 10 * (naves_destruidas (gs (run sched c)) - naves_destruidas (gs c))
         \<and> shots_hit (gs (run sched c))
             = shots_hit (gs c) + (naves_destruidas (gs (run sched c)) - naves_destruidas (gs c))"
  using inv_corrida_run [OF inv_corrida_inicial [OF len thr] ent]
  by (simp add: inv_corrida_def saldo_def)

lemma saldo_limitado:
  "saldo (run sched (config_inicial now d))
     \<le> naves_spawned (gs (run sched (config_inicial now d)))
        + int (janela (principal (run sched (config_inicial now d))))"
  using inv_contagem_run [OF inv_contagem_inicial, of sched now d]
  by (simp add: inv_contagem_def saldo_def)

text \<open>
  What the gate does guarantee. Each of the two gates of a ship task returns \<^verbatim>\<open>first\<close>
  true exactly when it found the slot alive, and leaves the slot not alive; a gate that
  finds the slot not alive changes nothing; the rocket's scan only ever flips a slot it
  finds alive, in the same locked region. A step of an entity task changes the score
  counters only if it is a scoring region entered with \<^verbatim>\<open>first\<close> true, and \<^verbatim>\<open>first\<close> is
  true there only for the task whose own gate (or scan) found the slot alive. While only
  entity tasks run, so that no slot is armed again, scored events, winners still waiting
  to score and live ships keep their sum; so tasks standing at their gates and scans for
  the one live ship \<open>i\<close> score exactly one event between them. In every run of the whole
  system that sum never exceeds the number of ships spawned (plus the one whose slot
  \<^verbatim>\<open>criar_nave\<close> has activated and not yet counted).
\<close>

lemma corrida_sem_rearmar:
  assumes cor: "corrida i c" and ent: "list_all entidade sched"
  shows "naves_destruidas (gs c) \<le> naves_destruidas (gs (run sched c))
         \<and> naves_chegaram (gs c) \<le> naves_chegaram (gs (run sched c))
         \<and> naves_destruidas (gs (run sched c)) + naves_chegaram (gs (run sched c))
             + int (ativas (naves (gs (run sched c))))
             + int (npends (nave_threads (run sched c)))
             + int (fpends (foguete_threads (run sched c)))
             = naves_destruidas (gs c) + naves_chegaram (gs c) + 1
         \<and> naves_destruidas (gs (run sched c)) + naves_chegaram (gs (run sched c))
             \<le> naves_destruidas (gs c) + naves_chegaram (gs c) + 1
         \<and> pontuacao (gs (run sched c))
             = pontuacao (gs c)
               + 10 * (naves_destruidas (gs (run sched c)) - naves_destruidas (gs c))
         \<and> shots_hit (gs (run sched c))
             = shots_hit (gs c) + (naves_destruidas (gs (run sched c)) - naves_destruidas (gs c))
         \<and> (list_ex (efetiva c) sched \<longrightarrow>
              \<not> nave_ativa (naves (gs (run sched c)) ! i)
              \<and> ativas (naves (gs (run sched c))) = 0)
         \<and> (list_ex (efetiva c) sched
              \<and> npends (nave_threads (run sched c)) = 0
              \<and> fpends (foguete_threads (run sched c)) = 0 \<longrightarrow>
              naves_destruidas (gs (run sched c)) + naves_chegaram (gs (run sched c))
                = naves_destruidas (gs c) + naves_chegaram (gs c) + 1)
         \<and> fst (nave_gate_ground k g) = nave_ativa (naves g ! k)
         \<and> fst (nave_gate_kill k g) = nave_ativa (naves g ! k)
         \<and> (k < length (naves g) \<longrightarrow>
              \<not> nave_ativa (naves (snd (nave_gate_ground k g)) ! k)
              \<and> \<not> nave_ativa (naves (snd (nave_gate_kill k g)) ! k))
         \<and> (\<not> nave_ativa (naves g ! k) \<longrightarrow>
              snd (nave_gate_ground k g) = g \<and> snd (nave_gate_kill k g) = g)
         \<and> (fst (foguete_scan_naves fx fy g) = Some k \<and> length (naves g) = MAX_NAVES \<longrightarrow>
              nave_ativa (naves g ! k)
              \<and> \<not> nave_ativa (naves (snd (foguete_scan_naves fx fy g)) ! k))
         \<and> score_ground False g = g \<and> score_kill False g = g
         \<and> (placar (snd (thread_nave k pc g)) \<noteq> placar g \<longrightarrow>
              pc = NGroundScore True \<or> (\<exists>nx ny. pc = NKillScore True nx ny))
         \<and> (fst (thread_nave k pc g) = NGroundScore True \<longrightarrow>
              pc = NGroundGate \<and> nave_ativa (naves g ! k))
         \<and> (fst (thread_nave k pc g) = NKillScore True nx ny \<longrightarrow>
              pc = NKillGate nx ny \<and> nave_ativa (naves g ! k))
         \<and> (placar (snd (thread_foguete j fpc g)) \<noteq> placar g \<longrightarrow> fpc = FScore True)
         \<and> (fst (thread_foguete j fpc g) = FScore True \<longrightarrow> (\<exists>h. fpc = FExplode True h))
         \<and> (fst (thread_foguete j fpc g) = FExplode True h \<longrightarrow> fpc = FMark True h)
         \<and> (fst (thread_foguete j fpc g) = FMark True h \<longrightarrow>
              (\<exists>fx fy. fpc = FScan fx fy \<and> fst (foguete_scan_naves fx fy g) = Some h))
         \<and> (length (naves (gs c0)) = MAX_NAVES
              \<and> list_all (\<lambda>t. fst t < MAX_NAVES) (nave_threads c0) \<longrightarrow>
              saldo (run sched c0) = saldo c0
              \<and> naves_destruidas (gs c0) \<le> naves_destruidas (gs (run sched c0))
              \<and> naves_chegaram (gs c0) \<le> naves_chegaram (gs (run sched c0))
              \<and> ativas (naves (gs (run sched c0))) \<le> ativas (naves (gs c0)))
         \<and> saldo (run todos (config_inicial now d))
             \<le> naves_spawned (gs (run todos (config_inicial now d)))
                + int (janela (principal (run todos (config_inicial now d))))"
proof -
  let ?c = "run sched c"
  note s = corrida_saldo [OF cor]
  from s have len0: "length (naves (gs c)) = MAX_NAVES"
    and thr0: "list_all (\<lambda>t. fst t < MAX_NAVES) (nave_threads c)"
    and q: "saldo c = naves_destruidas (gs c) + naves_chegaram (gs c) + 1" by simp_all
  note r = entidades_conservam [OF len0 thr0 ent]
  from r have a: "naves_destruidas (gs c) \<le> naves_destruidas (gs ?c)"
    and b: "naves_chegaram (gs c) \<le> naves_chegaram (gs ?c)"
    and p: "pontuacao (gs ?c)
             = pontuacao (gs c) + 10 * (naves_destruidas (gs ?c) - naves_destruidas (gs c))"
    and h: "shots_hit (gs ?c)
             = shots_hit (gs c) + (naves_destruidas (gs ?c) - naves_destruidas (gs c))"
    by simp_all
  from r q have e: "naves_destruidas (gs ?c) + naves_chegaram (gs ?c)
             + int (ativas (naves (gs ?c)))
             + int (npends (nave_threads ?c)) + int (fpends (foguete_threads ?c))
             = naves_destruidas (gs c) + naves_chegaram (gs c) + 1"
    by (simp add: saldo_def)
  from inv_corrida_run [OF inv_corrida_inicial [OF len0 thr0] ent]
  have len: "length (naves (gs ?c)) = MAX_NAVES" by (simp add: inv_corrida_def)
  from e have le: "naves_destruidas (gs ?c) + naves_chegaram (gs ?c)
                    \<le> naves_destruidas (gs c) + naves_chegaram (gs c) + 1" by linarith
  from cor have i: "i < MAX_NAVES" by (simp add: corrida_def)
  have v: "list_ex (efetiva c) sched \<longrightarrow>
             \<not> nave_ativa (naves (gs ?c) ! i) \<and> ativas (naves (gs ?c)) = 0"
  proof
    assume "list_ex (efetiva c) sched"
    from corrida_vira [OF cor ent this] have z: "ativas (naves (gs ?c)) = 0" .
    from ativas_zero [OF z] len i z
    show "\<not> nave_ativa (naves (gs ?c) ! i) \<and> ativas (naves (gs ?c)) = 0" by simp
  qed
  from v e have x: "list_ex (efetiva c) sched
              \<and> npends (nave_threads ?c) = 0 \<and> fpends (foguete_threads ?c) = 0 \<longrightarrow>
              naves_destruidas (gs ?c) + naves_chegaram (gs ?c)
                = naves_destruidas (gs c) + naves_chegaram (gs c) + 1" by auto
  have sf: "score_ground False g = g \<and> score_kill False g = g"
    by (simp add: score_ground_def score_kill_def)
  have pf: "fst (foguete_scan_naves fx fy g) = Some k \<and> length (naves g) = MAX_NAVES \<longrightarrow>
              nave_ativa (naves g ! k)
              \<and> \<not> nave_ativa (naves (snd (foguete_scan_naves fx fy g)) ! k)"
    using portao_foguete [of fx fy g k] by blast
  have ger: "length (naves (gs c0)) = MAX_NAVES
              \<and> list_all (\<lambda>t. fst t < MAX_NAVES) (nave_threads c0) \<longrightarrow>
              saldo (run sched c0) = saldo c0
              \<and> naves_destruidas (gs c0) \<le> naves_destruidas (gs (run sched c0))
              \<and> naves_chegaram (gs c0) \<le> naves_chegaram (gs (run sched c0))
              \<and> ativas (naves (gs (run sched c0))) \<le> ativas (naves (gs c0))"
    using entidades_conservam [of c0 sched] ent by blast
  note tot = saldo_limitado [of todos now d]
  show ?thesis
    using a b e le p h v x portoes [of k g] pf sf
      so_pontua_quem_virou_nave [of k pc g nx ny]
      so_pontua_quem_virou_foguete [of j fpc g h] ger tot
    by blast
qed

lemma corrida_sem_rearmar_exemplo:
  "corrida 0 config_corrida \<and> list_all entidade ordem_foguete
   \<and> list_ex (efetiva config_corrida) ordem_foguete
   \<and> placar (gs config_corrida) = (0, 0, 0, 0, 0, 0)
   \<and> placar (gs (run ordem_foguete config_corrida)) = (10, 1, 0, 1, 1, 1)
   \<and> nave_threads (run ordem_foguete config_corrida) = [(0, NExit), (0, NExit)]
   \<and> foguete_threads (run ordem_foguete config_corrida) = [(0, FTop), (1, FExit)]
   \<and> placar (gs (run ordem_chao config_corrida)) = (0, 0, 1, 0, 0, 0)
   \<and> \<not> nave_ativa (naves (gs (run ordem_foguete config_corrida)) ! 0)
   \<and> naves_destruidas (gs (run ordem_foguete config_corrida))
       + naves_chegaram (gs (run ordem_foguete config_corrida))
       = naves_destruidas (gs config_corrida) + naves_chegaram (gs config_corrida) + 1"
proof -
  have a: "corrida 0 config_corrida" by code_simp
  have b: "list_all entidade ordem_foguete" by code_simp
  have c: "list_ex (efetiva config_corrida) ordem_foguete" by code_simp
  have d: "placar (gs config_corrida) = (0, 0, 0, 0, 0, 0)"
    "placar (gs (run ordem_foguete config_corrida)) = (10, 1, 0, 1, 1, 1)"
    "nave_threads (run ordem_foguete config_corrida) = [(0, NExit), (0, NExit)]"
    "foguete_threads (run ordem_foguete config_corrida) = [(0, FTop), (1, FExit)]"
    "placar (gs (run ordem_chao config_corrida)) = (0, 0, 1, 0, 0, 0)"
    by code_simp+
  have e: "npends [(0, NExit), (0, NExit)] = 0" "fpends [(0, FTop), (1, FExit)] = 0"
    by (simp_all add: npends_def fpends_def)
  note t = corrida_sem_rearmar [OF a b, where k = 0 and g = "gs config_corrida"
      and pc = NTop and fpc = FTop and fx = 0 and fy = 0 and nx = 0 and ny = 0
      and j = 0 and h = 0 and ?c0.0 = config_corrida and todos = "[]" and now = 0 and d = 0]
  from t c have f: "\<not> nave_ativa (naves (gs (run ordem_foguete config_corrida)) ! 0)"
    by blast
  from t c d e
  have g: "naves_destruidas (gs (run ordem_foguete config_corrida))
       + naves_chegaram (gs (run ordem_foguete config_corrida))
       = naves_destruidas (gs config_corrida) + naves_chegaram (gs config_corrida) + 1"
    by simp
  show ?thesis using a b c d f g by simp
qed

section \<open>Re-arming a slot defeats the gate\<close>

text \<open>
  C1. Every collision is to be scored exactly once: one scoring event for each
  physically colliding ship and rocket, whoever detects it. The gate identifies the ship
  by its slot's \<^verbatim>\<open>ativa\<close> flag alone, and \<^verbatim>\<open>criar_nave\<close> arms any slot whose flag is
  false, also while a task of the slot's previous ship is still between its scan and its
  gate. Evaluated on the run from the start of the Easy game given by \<open>ordem_colisao\<close>,
  \<open>ordem_rearma\<close> and \<open>ordem_pontua\<close>:

  after \<open>ordem_colisao\<close> one shot has been fired and one ship spawned; the ship, at
  (60, 26), has been flipped by the rocket at (60, 28), whose task holds \<^verbatim>\<open>first\<close> true;
  the ship's own task stands at its kill gate with \<^verbatim>\<open>colidiu\<close> true; nothing is scored yet.
  After \<open>ordem_rearma\<close> slot 0 holds a second, live ship at (60, 3), outside the rocket's
  collision box. After \<open>ordem_pontua\<close> the old ship task has found the flag true, flipped
  the second ship and scored, and the rocket task has scored too: with one shot fired
  and one collision, two ships are counted destroyed, the score is 20 and the hit counter
  is 2, and the second ship is marked destroyed at (60, 3) where no rocket ever was.
\<close>

theorem rearmar_pontua_duas_vezes:
  "(let c1 = run ordem_colisao (config_inicial 0 0);
        c2 = run ordem_rearma c1;
        c3 = run ordem_pontua c2
    in shots_fired (gs c1) = 1 \<and> naves_spawned (gs c1) = 1
       \<and> placar (gs c1) = (0, 0, 0, 0, 0, 0)
       \<and> naves (gs c1) ! 0
           = \<lparr>nave_id = 0, nave_x = 60, nave_y = 26, nave_ativa = False,
              nave_destruida = True\<rparr>
       \<and> fog_x (foguetes (gs c1) ! 0) = 60 \<and> fog_y (foguetes (gs c1) ! 0) = 28
       \<and> nave_threads c1 = [(0, NKillGate 60 26)]
       \<and> foguete_threads c1 = [(0, FMark True 0)]
       \<and> shots_fired (gs c2) = 1 \<and> naves_spawned (gs c2) = 2
       \<and> placar (gs c2) = (0, 0, 0, 0, 0, 0)
       \<and> naves (gs c2) ! 0
           = \<lparr>nave_id = 0, nave_x = 60, nave_y = 3, nave_ativa = True,
              nave_destruida = False\<rparr>
       \<and> fog_x (foguetes (gs c2) ! 0) = 60 \<and> fog_y (foguetes (gs c2) ! 0) = 28
       \<and> \<not> na_caixa (nave_x (naves (gs c2) ! 0)) (nave_y (naves (gs c2) ! 0))
              (fog_x (foguetes (gs c2) ! 0)) (fog_y (foguetes (gs c2) ! 0))
       \<and> nave_threads c2 = [(0, NKillGate 60 26), (0, NTop)]
       \<and> foguete_threads c2 = [(0, FMark True 0)]
       \<and> shots_fired (gs c3) = 1 \<and> naves_spawned (gs c3) = 2
       \<and> placar (gs c3) = (20, 2, 0, 2, 2, 2)
       \<and> naves (gs c3) ! 0
           = \<lparr>nave_id = 0, nave_x = 60, nave_y = 3, nave_ativa = False,
              nave_destruida = True\<rparr>
       \<and> fog_x (foguetes (gs c3) ! 0) = 60 \<and> fog_y (foguetes (gs c3) ! 0) = 28
       \<and> ativas (naves (gs c3)) = 0
       \<and> nave_threads c3 = [(0, NExit), (0, NTop)]
       \<and> foguete_threads c3 = [(0, FExit)])"
  by code_simp

end
